theory Spec2Isabelle
  imports Main "HOL-Library.Word"
begin

unbundle bit_operations_syntax

section \<open>The SD-card block driver over SPI (station2.c)\<close>

text \<open>
  The driver is embedded function by function. Three pieces of state are threaded
  explicitly: the card session (\<open>sd_card_t\<close>), the destination or source buffer of
  a transfer, and the world outside the driver (the bus, the clock, the mutex),
  which is observed through an append-only trace of events.

  Conventions: the target is the RP2040 (ARM), where \<open>char\<close> is unsigned;
  assertions are taken as compiled out (\<open>NDEBUG\<close>); times are microseconds as
  integers (the 64-bit counter does not wrap within the life of a device).
\<close>

subsection \<open>Data model\<close>

type_synonym byte = "8 word"

text \<open>The error codes returned by every layer (\<open>SD_BLOCK_DEVICE_ERROR_*\<close>).\<close>

datatype sd_error =
    SD_BLOCK_DEVICE_ERROR_NONE
  | SD_BLOCK_DEVICE_ERROR_NO_DEVICE
  | SD_BLOCK_DEVICE_ERROR_CRC
  | SD_BLOCK_DEVICE_ERROR_PARAMETER
  | SD_BLOCK_DEVICE_ERROR_UNSUPPORTED
  | SD_BLOCK_DEVICE_ERROR_NO_INIT
  | SD_BLOCK_DEVICE_ERROR_WRITE
  | SD_BLOCK_DEVICE_ERROR_WRITE_PROTECTED
  | SD_BLOCK_DEVICE_ERROR_ERASE
  | SD_BLOCK_DEVICE_ERROR_NO_RESPONSE
  | SD_BLOCK_DEVICE_ERROR_UNUSABLE

text \<open>The capacity-class tag of the session (\<open>card_type\<close>).\<close>

datatype card_type_t = SDCARD_NONE | SDCARD_V1 | SDCARD_V2 | SDCARD_V2HC | CARD_UNKNOWN

text \<open>
  The card session: the fields of \<open>sd_card_t\<close> that the driver reads and writes.
  The mutex and the bus handle live in the world below.
\<close>

record sd_card =
  m_Status :: byte
  card_type :: card_type_t
  sectors :: "64 word"
  csd :: "byte list"
  cid :: "byte list"

abbreviation (input) STA_NOINIT :: byte where "STA_NOINIT \<equiv> 0x01"
abbreviation (input) STA_NODISK :: byte where "STA_NODISK \<equiv> 0x02"
abbreviation (input) STA_PROTECT :: byte where "STA_PROTECT \<equiv> 0x04"

text \<open>
  The module-level switch \<open>crc_on\<close> and the two checksum routines of crc.h, which
  is not among the sources: they are parameters of the model, so every theorem
  holds for any implementation of them.
\<close>

record config =
  crc_on :: bool
  crc7 :: "byte list \<Rightarrow> byte"
  crc16 :: "byte list \<Rightarrow> 16 word"

text \<open>
  Everything the driver does to the outside is an event. The first four are the
  resource layer (card mutex and bus ownership); the others are bus activity.
\<close>

datatype event =
    MutexEnter
  | MutexExit
  | SpiAcquire
  | SpiRelease
  | Xfer byte byte
  | DmaTx "byte list"
  | DmaRx "byte list"
  | DmaDone bool
  | Select
  | Deselect
  | DeselectPulse
  | LowFrequency
  | HighFrequency
  | InitSequence
  | BusyWait int

fun is_bus :: "event \<Rightarrow> bool" where
  "is_bus MutexEnter = False"
| "is_bus MutexExit = False"
| "is_bus SpiAcquire = False"
| "is_bus SpiRelease = False"
| "is_bus _ = True"

text \<open>
  The world: \<open>rx\<close> is what the card will drive on the data-out line, one byte per
  clocked byte slot (an undriven line reads \<open>0xFF\<close>); \<open>clock\<close> is the sequence of
  readings the monotonic clock will give (once it is used up, every deadline
  counts as elapsed); \<open>dma_done\<close> is the sequence of outcomes of waiting for an
  asynchronous transfer; \<open>medium_present\<close> is the card-detect switch.
\<close>

record world =
  rx :: "byte list"
  clock :: "int list"
  dma_done :: "bool list"
  medium_present :: bool
  trace :: "event list"

subsection \<open>Constants of the protocol\<close>

abbreviation (input) SPI_FILL_CHAR :: byte where "SPI_FILL_CHAR \<equiv> 0xFF"
abbreviation (input) SPI_DATA_RESPONSE_MASK :: byte where "SPI_DATA_RESPONSE_MASK \<equiv> 0x1F"
abbreviation (input) SPI_DATA_ACCEPTED :: byte where "SPI_DATA_ACCEPTED \<equiv> 0x05"
abbreviation (input) SPI_START_BLOCK :: byte where "SPI_START_BLOCK \<equiv> 0xFE"
abbreviation (input) SPI_START_BLK_MUL_WRITE :: byte where "SPI_START_BLK_MUL_WRITE \<equiv> 0xFC"
abbreviation (input) SPI_STOP_TRAN :: byte where "SPI_STOP_TRAN \<equiv> 0xFD"

abbreviation (input) R1_NO_RESPONSE :: byte where "R1_NO_RESPONSE \<equiv> 0xFF"
abbreviation (input) R1_RESPONSE_RECV :: byte where "R1_RESPONSE_RECV \<equiv> 0x80"
abbreviation (input) R1_IDLE_STATE :: byte where "R1_IDLE_STATE \<equiv> 0x01"
abbreviation (input) R1_ERASE_RESET :: byte where "R1_ERASE_RESET \<equiv> 0x02"
abbreviation (input) R1_ILLEGAL_COMMAND :: byte where "R1_ILLEGAL_COMMAND \<equiv> 0x04"
abbreviation (input) R1_COM_CRC_ERROR :: byte where "R1_COM_CRC_ERROR \<equiv> 0x08"
abbreviation (input) R1_ERASE_SEQUENCE_ERROR :: byte where "R1_ERASE_SEQUENCE_ERROR \<equiv> 0x10"
abbreviation (input) R1_ADDRESS_ERROR :: byte where "R1_ADDRESS_ERROR \<equiv> 0x20"
abbreviation (input) R1_PARAMETER_ERROR :: byte where "R1_PARAMETER_ERROR \<equiv> 0x40"

abbreviation (input) OCR_HCS_CCS :: "32 word" where "OCR_HCS_CCS \<equiv> 0x40000000"
abbreviation (input) OCR_3_3V :: "32 word" where "OCR_3_3V \<equiv> 0x100000"

abbreviation (input) SD_COMMAND_RETRIES :: nat where "SD_COMMAND_RETRIES \<equiv> 3"
abbreviation (input) SD_COMMAND_TIMEOUT :: int where "SD_COMMAND_TIMEOUT \<equiv> 2000"
abbreviation (input) SD_CMD0_GO_IDLE_STATE_RETRIES :: nat where "SD_CMD0_GO_IDLE_STATE_RETRIES \<equiv> 10"
abbreviation (input) CMD8_PATTERN :: "32 word" where "CMD8_PATTERN \<equiv> 0xAA"

text \<open>
  Modelled from the spec: the enumeration \<open>cmdSupported\<close> and \<open>_block_size\<close> are
  declared in sd_card.h, which is not among the sources. The opcodes are the
  standard numbered set; the block size is 512 bytes.
\<close>

type_synonym cmdSupported = nat

abbreviation (input) CMD0_GO_IDLE_STATE :: cmdSupported where "CMD0_GO_IDLE_STATE \<equiv> 0"
abbreviation (input) CMD8_SEND_IF_COND :: cmdSupported where "CMD8_SEND_IF_COND \<equiv> 8"
abbreviation (input) CMD9_SEND_CSD :: cmdSupported where "CMD9_SEND_CSD \<equiv> 9"
abbreviation (input) CMD10_SEND_CID :: cmdSupported where "CMD10_SEND_CID \<equiv> 10"
abbreviation (input) CMD12_STOP_TRANSMISSION :: cmdSupported where "CMD12_STOP_TRANSMISSION \<equiv> 12"
abbreviation (input) CMD13_SEND_STATUS :: cmdSupported where "CMD13_SEND_STATUS \<equiv> 13"
abbreviation (input) CMD16_SET_BLOCKLEN :: cmdSupported where "CMD16_SET_BLOCKLEN \<equiv> 16"
abbreviation (input) CMD17_READ_SINGLE_BLOCK :: cmdSupported where "CMD17_READ_SINGLE_BLOCK \<equiv> 17"
abbreviation (input) CMD18_READ_MULTIPLE_BLOCK :: cmdSupported where "CMD18_READ_MULTIPLE_BLOCK \<equiv> 18"
abbreviation (input) CMD24_WRITE_BLOCK :: cmdSupported where "CMD24_WRITE_BLOCK \<equiv> 24"
abbreviation (input) CMD25_WRITE_MULTIPLE_BLOCK :: cmdSupported where "CMD25_WRITE_MULTIPLE_BLOCK \<equiv> 25"
abbreviation (input) CMD38_ERASE :: cmdSupported where "CMD38_ERASE \<equiv> 38"
abbreviation (input) CMD55_APP_CMD :: cmdSupported where "CMD55_APP_CMD \<equiv> 55"
abbreviation (input) CMD58_READ_OCR :: cmdSupported where "CMD58_READ_OCR \<equiv> 58"
abbreviation (input) CMD59_CRC_ON_OFF :: cmdSupported where "CMD59_CRC_ON_OFF \<equiv> 59"
abbreviation (input) ACMD23_SET_WR_BLK_ERASE_COUNT :: cmdSupported where "ACMD23_SET_WR_BLK_ERASE_COUNT \<equiv> 23"
abbreviation (input) ACMD41_SD_SEND_OP_COND :: cmdSupported where "ACMD41_SD_SEND_OP_COND \<equiv> 41"

abbreviation (input) block_size :: nat where "block_size \<equiv> 512"

subsection \<open>The platform primitives\<close>

text \<open>
  Modelled from the spec: the bus transport (sd_spi.h, spi.h), the clock and the
  mutex are provided by the platform and are not among the sources. Each primitive
  appends its event to the trace; a byte exchange and a block transfer take their
  received bytes from \<open>rx\<close>.
\<close>

definition emit :: "event \<Rightarrow> world \<Rightarrow> world" where
  "emit e w = w\<lparr>trace := trace w @ [e]\<rparr>"

definition sd_spi_write :: "byte \<Rightarrow> world \<Rightarrow> byte \<times> world" where
  "sd_spi_write v w =
     (case rx w of
        [] \<Rightarrow> (0xFF, emit (Xfer v 0xFF) w)
      | b # bs \<Rightarrow> (b, emit (Xfer v b) (w\<lparr>rx := bs\<rparr>)))"

definition make_timeout_time_ms :: "int \<Rightarrow> world \<Rightarrow> int option \<times> world" where
  "make_timeout_time_ms ms w =
     (case clock w of
        [] \<Rightarrow> (None, w)
      | t # ts \<Rightarrow> (Some (t + ms * 1000), w\<lparr>clock := ts\<rparr>))"

text \<open>\<open>0 < absolute_time_diff_us(get_absolute_time(), timeout_time)\<close>\<close>

definition deadline_pending :: "int option \<Rightarrow> world \<Rightarrow> bool \<times> world" where
  "deadline_pending timeout_time w =
     (case clock w of
        [] \<Rightarrow> (False, w)
      | t # ts \<Rightarrow>
          ((case timeout_time of None \<Rightarrow> False | Some d \<Rightarrow> t < d), w\<lparr>clock := ts\<rparr>))"

text \<open>
  \<open>rx_bytes n w\<close> are the next \<open>n\<close> bytes the card drives, padded with \<open>0xFF\<close>.
  A receiving transfer stores them; a sending transfer clocks them and drops them.
\<close>

definition rx_bytes :: "nat \<Rightarrow> world \<Rightarrow> byte list" where
  "rx_bytes n w = take n (rx w) @ replicate (n - length (rx w)) 0xFF"

definition spi_transfer_rx :: "nat \<Rightarrow> world \<Rightarrow> byte list \<times> world" where
  "spi_transfer_rx n w =
     (rx_bytes n w, emit (DmaRx (rx_bytes n w)) (w\<lparr>rx := drop n (rx w)\<rparr>))"

definition spi_transfer_tx :: "byte list \<Rightarrow> nat \<Rightarrow> world \<Rightarrow> world" where
  "spi_transfer_tx tx n w = emit (DmaTx tx) (w\<lparr>rx := drop n (rx w)\<rparr>)"

definition sd_spi_transfer_wait_complete :: "world \<Rightarrow> bool \<times> world" where
  "sd_spi_transfer_wait_complete w =
     (case dma_done w of
        [] \<Rightarrow> (True, emit (DmaDone True) w)
      | ok # oks \<Rightarrow> (ok, emit (DmaDone ok) (w\<lparr>dma_done := oks\<rparr>)))"

definition sd_lock :: "world \<Rightarrow> world" where
  "sd_lock w = emit MutexEnter w"

definition sd_unlock :: "world \<Rightarrow> world" where
  "sd_unlock w = emit MutexExit w"

definition sd_spi_acquire :: "world \<Rightarrow> world" where
  "sd_spi_acquire w = emit SpiAcquire w"

definition sd_spi_release :: "world \<Rightarrow> world" where
  "sd_spi_release w = emit SpiRelease w"

text \<open>Modelled from the spec: card detection sets or clears the no-medium bit.\<close>

definition sd_card_detect :: "sd_card \<Rightarrow> world \<Rightarrow> sd_card" where
  "sd_card_detect sd w =
     (if medium_present w then sd\<lparr>m_Status := m_Status sd AND NOT STA_NODISK\<rparr>
      else sd\<lparr>m_Status := m_Status sd OR STA_NODISK\<rparr>)"

text \<open>
  Buffers are byte lists addressed by offset. A caller passes a buffer that holds
  the blocks it asks for; outside it C is undefined and the model pads or cuts.
\<close>

definition load :: "byte list \<Rightarrow> nat \<Rightarrow> nat \<Rightarrow> byte list" where
  "load buf off n = take n (drop off buf)"

definition store :: "byte list \<Rightarrow> nat \<Rightarrow> byte list \<Rightarrow> byte list" where
  "store buf off data =
     take off buf @ replicate (off - length buf) 0 @ data @ drop (off + length data) buf"

subsection \<open>Bit utilities\<close>

text \<open>
  Modelled from the spec: \<open>ext_bits\<close> (util.h) is not among the sources. The
  register is read most-significant byte first: bit \<open>k\<close> of a 16-byte register
  is bit \<open>k mod 8\<close> of byte \<open>15 - k div 8\<close>; the result collects bits
  \<open>msb..lsb\<close> with \<open>lsb\<close> as bit 0.
\<close>

definition reg_bit :: "byte list \<Rightarrow> nat \<Rightarrow> bool" where
  "reg_bit data k =
     (let i = 15 - k div 8 in if i < length data then bit (data ! i) (k mod 8) else False)"

fun ext_bits_upto :: "byte list \<Rightarrow> nat \<Rightarrow> nat \<Rightarrow> 32 word" where
  "ext_bits_upto data lsb 0 = 0"
| "ext_bits_upto data lsb (Suc i) =
     ext_bits_upto data lsb i OR (if reg_bit data (lsb + i) then push_bit i 1 else 0)"

definition ext_bits :: "byte list \<Rightarrow> nat \<Rightarrow> nat \<Rightarrow> 32 word" where
  "ext_bits data msb lsb = ext_bits_upto data lsb (1 + msb - lsb)"

subsection \<open>Command layer\<close>

definition SPI_CMD :: "cmdSupported \<Rightarrow> byte" where
  "SPI_CMD x = 0x40 OR (of_nat x AND 0x3f)"

text \<open>The six bytes of \<open>cmdPacket\<close> as \<open>sd_cmd_spi\<close> prepares them.\<close>

definition cmdPacket :: "config \<Rightarrow> cmdSupported \<Rightarrow> 32 word \<Rightarrow> byte list" where
  "cmdPacket cfg cmd arg =
     (let p = [SPI_CMD cmd, ucast (drop_bit 24 arg), ucast (drop_bit 16 arg),
               ucast (drop_bit 8 arg), ucast arg]
      in p @ [if crc_on cfg then push_bit 1 (crc7 cfg p) OR 0x01
              else if cmd = CMD0_GO_IDLE_STATE then 0x95
              else if cmd = CMD8_SEND_IF_COND then 0x87
              else 0xFF])"

fun send_bytes :: "byte list \<Rightarrow> world \<Rightarrow> world" where
  "send_bytes [] w = w"
| "send_bytes (b # bs) w = send_bytes bs (snd (sd_spi_write b w))"

text \<open>The response loop of \<open>sd_cmd_spi\<close>: at most \<open>n\<close> fill bytes.\<close>

fun poll_response :: "nat \<Rightarrow> byte \<Rightarrow> world \<Rightarrow> byte \<times> world" where
  "poll_response 0 response w = (response, w)"
| "poll_response (Suc n) response w =
     (let (r, w1) = sd_spi_write SPI_FILL_CHAR w
      in if r AND R1_RESPONSE_RECV = 0 then (r, w1) else poll_response n r w1)"

definition sd_cmd_spi :: "config \<Rightarrow> cmdSupported \<Rightarrow> 32 word \<Rightarrow> world \<Rightarrow> byte \<times> world" where
  "sd_cmd_spi cfg cmd arg w =
     (let w1 = send_bytes (cmdPacket cfg cmd arg) w;
          w2 = (if cmd = CMD12_STOP_TRANSMISSION then snd (sd_spi_write SPI_FILL_CHAR w1) else w1)
      in poll_response 0x10 R1_NO_RESPONSE w2)"

function sd_wait_ready_loop :: "int option \<Rightarrow> world \<Rightarrow> byte \<times> world" where
  "sd_wait_ready_loop timeout_time w =
     (let (resp, w1) = sd_spi_write 0xFF w
      in if resp = 0x00 then
           (let (pending, w2) = deadline_pending timeout_time w1
            in if pending then sd_wait_ready_loop timeout_time w2 else (resp, w2))
         else (resp, w1))"
  by pat_completeness auto
termination
  by (relation "measure (\<lambda>(t, w). length (clock w))")
     (auto simp: sd_spi_write_def deadline_pending_def emit_def split: list.splits)

declare sd_wait_ready_loop.simps [simp del]

definition sd_wait_ready :: "int \<Rightarrow> world \<Rightarrow> bool \<times> world" where
  "sd_wait_ready timeout w =
     (let (timeout_time, w1) = make_timeout_time_ms timeout w;
          (resp, w2) = sd_wait_ready_loop timeout_time w1
      in (resp \<noteq> 0x00, w2))"

text \<open>The retry loop of \<open>sd_cmd\<close>, with \<open>n\<close> attempts left.\<close>

fun sd_cmd_retry ::
  "config \<Rightarrow> nat \<Rightarrow> cmdSupported \<Rightarrow> 32 word \<Rightarrow> bool \<Rightarrow> byte \<Rightarrow> world \<Rightarrow> byte \<times> world" where
  "sd_cmd_retry cfg 0 cmd arg isAcmd response w = (response, w)"
| "sd_cmd_retry cfg (Suc n) cmd arg isAcmd response w =
     (let w1 = (if isAcmd
                then snd (sd_wait_ready SD_COMMAND_TIMEOUT (snd (sd_cmd_spi cfg CMD55_APP_CMD 0x0 w)))
                else w);
          (r, w2) = sd_cmd_spi cfg cmd arg w1
      in if r = R1_NO_RESPONSE then sd_cmd_retry cfg n cmd arg isAcmd r w2 else (r, w2))"

text \<open>The R2 status bits of CMD13, tested in the order of the source; a later bit wins.\<close>

definition r2_status :: "32 word \<Rightarrow> sd_error \<Rightarrow> sd_error" where
  "r2_status response status =
     (let s = status;
          s = (if response AND 0x0001 \<noteq> 0 then SD_BLOCK_DEVICE_ERROR_WRITE else s);
          s = (if response AND 0x0002 \<noteq> 0 then SD_BLOCK_DEVICE_ERROR_WRITE_PROTECTED else s);
          s = (if response AND 0x0004 \<noteq> 0 then SD_BLOCK_DEVICE_ERROR_WRITE else s);
          s = (if response AND 0x0008 \<noteq> 0 then SD_BLOCK_DEVICE_ERROR_WRITE else s);
          s = (if response AND 0x0010 \<noteq> 0 then SD_BLOCK_DEVICE_ERROR_WRITE else s);
          s = (if response AND 0x0020 \<noteq> 0 then SD_BLOCK_DEVICE_ERROR_WRITE_PROTECTED else s);
          s = (if response AND 0x0040 \<noteq> 0 then SD_BLOCK_DEVICE_ERROR_ERASE else s);
          s = (if response AND 0x0080 \<noteq> 0 then SD_BLOCK_DEVICE_ERROR_PARAMETER else s);
          s = (if response AND 0x0100 \<noteq> 0 then SD_BLOCK_DEVICE_ERROR_NONE else s);
          s = (if response AND 0x0200 \<noteq> 0 then SD_BLOCK_DEVICE_ERROR_ERASE else s);
          s = (if response AND 0x0400 \<noteq> 0 then SD_BLOCK_DEVICE_ERROR_UNSUPPORTED else s);
          s = (if response AND 0x0800 \<noteq> 0 then SD_BLOCK_DEVICE_ERROR_CRC else s);
          s = (if response AND 0x1000 \<noteq> 0 then SD_BLOCK_DEVICE_ERROR_ERASE else s);
          s = (if response AND 0x2000 \<noteq> 0 then SD_BLOCK_DEVICE_ERROR_PARAMETER else s);
          s = (if response AND 0x4000 \<noteq> 0 then SD_BLOCK_DEVICE_ERROR_PARAMETER else s)
      in s)"

text \<open>Four fill-byte exchanges assembled most-significant byte first (R3/R7).\<close>

definition read_r3_r7 :: "world \<Rightarrow> 32 word \<times> world" where
  "read_r3_r7 w =
     (let (b3, w1) = sd_spi_write SPI_FILL_CHAR w;
          (b2, w2) = sd_spi_write SPI_FILL_CHAR w1;
          (b1, w3) = sd_spi_write SPI_FILL_CHAR w2;
          (b0, w4) = sd_spi_write SPI_FILL_CHAR w3
      in (push_bit 24 (ucast b3) OR push_bit 16 (ucast b2) OR push_bit 8 (ucast b1) OR ucast b0, w4))"

text \<open>
  \<open>sd_cmd\<close>. The second component is what the call stores through \<open>resp\<close>:
  \<open>None\<close> when it returns before storing anything.
\<close>

definition sd_cmd ::
  "config \<Rightarrow> sd_card \<Rightarrow> cmdSupported \<Rightarrow> 32 word \<Rightarrow> bool \<Rightarrow> world
     \<Rightarrow> sd_error \<times> 32 word option \<times> sd_card \<times> world" where
  "sd_cmd cfg sd cmd arg isAcmd w =
     (let (ready, w1) =
            (if cmd \<noteq> CMD12_STOP_TRANSMISSION \<and> cmd \<noteq> CMD0_GO_IDLE_STATE
             then sd_wait_ready SD_COMMAND_TIMEOUT w else (True, w))
      in if \<not> ready then (SD_BLOCK_DEVICE_ERROR_NO_RESPONSE, None, sd, w1)
      else
        let (r, w2) = sd_cmd_retry cfg SD_COMMAND_RETRIES cmd arg isAcmd R1_NO_RESPONSE w1;
            response = (ucast r :: 32 word)
        in if r = R1_NO_RESPONSE then (SD_BLOCK_DEVICE_ERROR_NO_RESPONSE, Some response, sd, w2)
        else if r AND R1_COM_CRC_ERROR \<noteq> 0 \<and> cmd \<noteq> ACMD23_SET_WR_BLK_ERASE_COUNT
          then (SD_BLOCK_DEVICE_ERROR_CRC, Some response, sd, w2)
        else if r AND R1_ILLEGAL_COMMAND \<noteq> 0
          then (SD_BLOCK_DEVICE_ERROR_UNSUPPORTED, Some response,
                if cmd = CMD8_SEND_IF_COND then sd\<lparr>card_type := CARD_UNKNOWN\<rparr> else sd, w2)
        else
          let status =
                (if r AND R1_ERASE_RESET \<noteq> 0 \<or> r AND R1_ERASE_SEQUENCE_ERROR \<noteq> 0
                 then SD_BLOCK_DEVICE_ERROR_ERASE
                 else if r AND R1_ADDRESS_ERROR \<noteq> 0 \<or> r AND R1_PARAMETER_ERROR \<noteq> 0
                 then SD_BLOCK_DEVICE_ERROR_PARAMETER
                 else SD_BLOCK_DEVICE_ERROR_NONE)
          in if cmd = CMD8_SEND_IF_COND \<or> cmd = CMD58_READ_OCR then
               (let sd1 = (if cmd = CMD8_SEND_IF_COND then sd\<lparr>card_type := SDCARD_V2\<rparr> else sd);
                    (response1, w3) = read_r3_r7 w2
                in (status, Some response1, sd1, w3))
             else if cmd = CMD12_STOP_TRANSMISSION \<or> cmd = CMD38_ERASE then
               (status, Some response, sd, snd (sd_wait_ready SD_COMMAND_TIMEOUT w2))
             else if cmd = CMD13_SEND_STATUS then
               (let (b, w3) = sd_spi_write SPI_FILL_CHAR w2;
                    response1 = push_bit 8 response OR ucast b
                in (if response1 \<noteq> 0 then r2_status response1 status else status,
                    Some response1, sd, w3))
             else (status, Some response, sd, w2))"

definition sd_cmd8 :: "config \<Rightarrow> sd_card \<Rightarrow> world \<Rightarrow> sd_error \<times> sd_card \<times> world" where
  "sd_cmd8 cfg sd w =
     (let arg = CMD8_PATTERN OR push_bit 8 0x1;
          (status, r, sd1, w1) = sd_cmd cfg sd CMD8_SEND_IF_COND arg False w;
          response = (case r of None \<Rightarrow> 0 | Some v \<Rightarrow> v)
      in if status = SD_BLOCK_DEVICE_ERROR_NONE \<and> card_type sd1 = SDCARD_V2
            \<and> response AND 0xFFF \<noteq> arg
         then (SD_BLOCK_DEVICE_ERROR_UNUSABLE, sd1\<lparr>card_type := CARD_UNKNOWN\<rparr>, w1)
         else (status, sd1, w1))"

subsection \<open>Receiving data\<close>

function sd_wait_token_loop :: "byte \<Rightarrow> int option \<Rightarrow> world \<Rightarrow> bool \<times> world" where
  "sd_wait_token_loop token timeout_time w =
     (let (r, w1) = sd_spi_write SPI_FILL_CHAR w
      in if token = r then (True, w1)
         else
           (let (pending, w2) = deadline_pending timeout_time w1
            in if pending then sd_wait_token_loop token timeout_time w2 else (False, w2)))"
  by pat_completeness auto
termination
  by (relation "measure (\<lambda>(k, t, w). length (clock w))")
     (auto simp: sd_spi_write_def deadline_pending_def emit_def split: list.splits)

declare sd_wait_token_loop.simps [simp del]

definition sd_wait_token :: "byte \<Rightarrow> world \<Rightarrow> bool \<times> world" where
  "sd_wait_token token w =
     (let (timeout_time, w1) = make_timeout_time_ms SD_COMMAND_TIMEOUT w
      in sd_wait_token_loop token timeout_time w1)"

definition chk_crc16 :: "config \<Rightarrow> byte list \<Rightarrow> 16 word \<Rightarrow> bool" where
  "chk_crc16 cfg buffer crc = (if crc_on cfg then crc16 cfg buffer = crc else True)"

text \<open>The two checksum bytes that follow a data block, high byte first.\<close>

definition read_crc :: "world \<Rightarrow> 16 word \<times> world" where
  "read_crc w =
     (let (hi, w1) = sd_spi_write SPI_FILL_CHAR w;
          (lo, w2) = sd_spi_write SPI_FILL_CHAR w1
      in (push_bit 8 (ucast hi) OR ucast lo, w2))"

fun read_n :: "nat \<Rightarrow> world \<Rightarrow> byte list \<times> world" where
  "read_n 0 w = ([], w)"
| "read_n (Suc n) w =
     (let (b, w1) = sd_spi_write SPI_FILL_CHAR w;
          (bs, w2) = read_n n w1
      in (b # bs, w2))"

text \<open>
  \<open>sd_read_bytes\<close> fills the first \<open>len\<close> bytes of \<open>buffer\<close>; they stay
  filled when the checksum is then found wrong.
\<close>

definition sd_read_bytes ::
  "config \<Rightarrow> byte list \<Rightarrow> nat \<Rightarrow> world \<Rightarrow> sd_error \<times> byte list \<times> world" where
  "sd_read_bytes cfg buffer len w =
     (let (found, w1) = sd_wait_token SPI_START_BLOCK w
      in if \<not> found then (SD_BLOCK_DEVICE_ERROR_NO_RESPONSE, buffer, w1)
         else
           (let (data, w2) = read_n len w1;
                (crc, w3) = read_crc w2
            in if \<not> chk_crc16 cfg data crc
               then (SD_BLOCK_DEVICE_ERROR_CRC, store buffer 0 data, w3)
               else (SD_BLOCK_DEVICE_ERROR_NONE, store buffer 0 data, w3)))"

subsection \<open>Geometry decoder\<close>

text \<open>
  The \<open>switch\<close> of \<open>in_sd_spi_sectors\<close> on the structure version, with the
  integer widths of the source: the fields, \<open>block_len\<close>, \<open>mult\<close> and
  \<open>blocknr\<close> are 32-bit, \<open>capacity\<close> and \<open>blocks\<close> are 64-bit, and the
  high-capacity shift is done on the 32-bit \<open>hc_c_size + 1\<close> before it is widened.
\<close>

definition csd_blocks :: "byte list \<Rightarrow> 64 word" where
  "csd_blocks c =
     (let csd_structure = ext_bits c 127 126
      in if csd_structure = 0 then
           (let c_size = ext_bits c 73 62;
                c_size_mult = ext_bits c 49 47;
                read_bl_len = ext_bits c 83 80;
                block_len = (push_bit (unat read_bl_len) 1 :: 32 word);
                mult = (push_bit (unat c_size_mult + 2) 1 :: 32 word);
                blocknr = (c_size + 1) * mult;
                capacity = (ucast blocknr :: 64 word) * ucast block_len
            in capacity div of_nat block_size)
         else if csd_structure = 1 then
           (let hc_c_size = ext_bits c 69 48
            in ucast (push_bit 10 (hc_c_size + 1) :: 32 word))
         else 0)"

definition in_sd_spi_sectors :: "config \<Rightarrow> sd_card \<Rightarrow> world \<Rightarrow> 64 word \<times> sd_card \<times> world" where
  "in_sd_spi_sectors cfg sd w =
     (let (status, r, sd1, w1) = sd_cmd cfg sd CMD9_SEND_CSD 0x0 False w
      in if status \<noteq> SD_BLOCK_DEVICE_ERROR_NONE then (0, sd1, w1)
         else
           (let (status1, c, w2) = sd_read_bytes cfg (csd sd1) 16 w1;
                sd2 = sd1\<lparr>csd := c\<rparr>
            in if status1 \<noteq> SD_BLOCK_DEVICE_ERROR_NONE then (0, sd2, w2)
               else (csd_blocks c, sd2, w2)))"

subsection \<open>Resource layer\<close>

definition sd_acquire :: "world \<Rightarrow> world" where
  "sd_acquire w = sd_spi_acquire (sd_lock w)"

definition sd_release :: "world \<Rightarrow> world" where
  "sd_release w = sd_spi_release (sd_unlock w)"

definition sd_spi_sectors :: "config \<Rightarrow> sd_card \<Rightarrow> world \<Rightarrow> 64 word \<times> sd_card \<times> world" where
  "sd_spi_sectors cfg sd w =
     (let (n, sd1, w1) = in_sd_spi_sectors cfg sd (sd_acquire w)
      in (n, sd1, sd_release w1))"

subsection \<open>Block reads\<close>

text \<open>
  The receive loop of \<open>in_sd_read_blocks\<close> with \<open>blockCnt\<close> blocks to go.
  \<open>prev\<close> is \<open>prev_buffer_addr\<close> (\<open>None\<close> for the null pointer), \<open>addr\<close> is
  \<open>buffer_addr\<close> as an offset into the destination. The transfer is started
  before the previous block is checked, and its outcome is known only afterwards.
\<close>

fun read_blocks_loop ::
  "config \<Rightarrow> nat \<Rightarrow> sd_error \<Rightarrow> 16 word \<Rightarrow> nat option \<Rightarrow> nat \<Rightarrow> byte list \<Rightarrow> world
     \<Rightarrow> sd_error \<times> 16 word \<times> nat option \<times> byte list \<times> world" where
  "read_blocks_loop cfg 0 status prev_block_crc prev addr buf w =
     (status, prev_block_crc, prev, buf, w)"
| "read_blocks_loop cfg (Suc blockCnt) status prev_block_crc prev addr buf w =
     (if status \<noteq> SD_BLOCK_DEVICE_ERROR_NONE then (status, prev_block_crc, prev, buf, w)
      else
        let (found, w1) = sd_wait_token SPI_START_BLOCK w
        in if \<not> found then (SD_BLOCK_DEVICE_ERROR_NO_RESPONSE, prev_block_crc, prev, buf, w1)
           else
             let (data, w2) = spi_transfer_rx block_size w1;
                 buf1 = store buf addr data;
                 status1 =
                   (case prev of
                      None \<Rightarrow> status
                    | Some p \<Rightarrow>
                        if \<not> chk_crc16 cfg (load buf1 p block_size) prev_block_crc
                        then SD_BLOCK_DEVICE_ERROR_CRC else status);
                 (ok, w3) = sd_spi_transfer_wait_complete w2
             in if \<not> ok then (SD_BLOCK_DEVICE_ERROR_NO_RESPONSE, prev_block_crc, prev, buf1, w3)
                else
                  let (crc, w4) = read_crc w3
                  in read_blocks_loop cfg blockCnt status1 crc (Some addr) (addr + block_size) buf1 w4)"

text \<open>
  With \<open>ulSectorCount = 0\<close> the final check is handed the null pointer; the bytes
  at address 0 are not part of the model and are taken as an empty block.
\<close>

definition in_sd_read_blocks ::
  "config \<Rightarrow> sd_card \<Rightarrow> byte list \<Rightarrow> 64 word \<Rightarrow> 32 word \<Rightarrow> world
     \<Rightarrow> sd_error \<times> sd_card \<times> byte list \<times> world" where
  "in_sd_read_blocks cfg sd buf ulSectorNumber ulSectorCount w =
     (if m_Status sd AND (STA_NOINIT OR STA_NODISK) \<noteq> 0
      then (SD_BLOCK_DEVICE_ERROR_PARAMETER, sd, buf, w)
      else if ulSectorNumber + ucast ulSectorCount > sectors sd
      then (SD_BLOCK_DEVICE_ERROR_PARAMETER, sd, buf, w)
      else
        let addr = (if card_type sd = SDCARD_V2HC then ulSectorNumber
                    else ulSectorNumber * of_nat block_size);
            (status, r, sd1, w1) =
              (if ulSectorCount = 1
               then sd_cmd cfg sd CMD17_READ_SINGLE_BLOCK (ucast addr) False w
               else sd_cmd cfg sd CMD18_READ_MULTIPLE_BLOCK (ucast addr) False w)
        in if status \<noteq> SD_BLOCK_DEVICE_ERROR_NONE then (status, sd1, buf, w1)
           else
             let (status1, prev_block_crc, prev, buf1, w2) =
                   read_blocks_loop cfg (unat ulSectorCount) status 0 None 0 buf w1;
                 (sd2, w3) =
                   (if ulSectorCount > 1
                    then (let (s, r, sd', w') = sd_cmd cfg sd1 CMD12_STOP_TRANSMISSION 0x0 False w2
                          in (sd', w'))
                    else (sd1, w2))
             in if status1 = SD_BLOCK_DEVICE_ERROR_NONE
                   \<and> \<not> chk_crc16 cfg (case prev of None \<Rightarrow> [] | Some p \<Rightarrow> load buf1 p block_size)
                          prev_block_crc
                then (SD_BLOCK_DEVICE_ERROR_CRC, sd2, buf1, w3)
                else (status1, sd2, buf1, w3))"

definition sd_read_blocks ::
  "config \<Rightarrow> sd_card \<Rightarrow> byte list \<Rightarrow> 64 word \<Rightarrow> 32 word \<Rightarrow> world
     \<Rightarrow> sd_error \<times> sd_card \<times> byte list \<times> world" where
  "sd_read_blocks cfg sd buffer ulSectorNumber ulSectorCount w =
     (let (status, sd1, buffer1, w1) =
            in_sd_read_blocks cfg sd buffer ulSectorNumber ulSectorCount (sd_acquire w)
      in (status, sd1, buffer1, sd_release w1))"

subsection \<open>Block writes\<close>

definition sd_write_block :: "config \<Rightarrow> byte list \<Rightarrow> byte \<Rightarrow> nat \<Rightarrow> world \<Rightarrow> sd_error \<times> world" where
  "sd_write_block cfg buffer token len w =
     (let w1 = snd (sd_spi_write token w);
          w2 = spi_transfer_tx buffer len w1;
          crc = (if crc_on cfg then crc16 cfg buffer else (NOT 0 :: 16 word));
          (ok, w3) = sd_spi_transfer_wait_complete w2
      in if \<not> ok then (SD_BLOCK_DEVICE_ERROR_WRITE, w3)
         else
           let w4 = snd (sd_spi_write (ucast (drop_bit 8 crc)) w3);
               w5 = snd (sd_spi_write (ucast crc) w4);
               (response, w6) = sd_spi_write SPI_FILL_CHAR w5
           in if response AND SPI_DATA_RESPONSE_MASK \<noteq> SPI_DATA_ACCEPTED
              then (SD_BLOCK_DEVICE_ERROR_WRITE, w6)
              else
                let (ready, w7) = sd_wait_ready SD_COMMAND_TIMEOUT w6
                in if \<not> ready then (SD_BLOCK_DEVICE_ERROR_WRITE, w7)
                   else (SD_BLOCK_DEVICE_ERROR_NONE, w7))"

text \<open>
  The \<open>do ... while (--blockCnt && ...)\<close> loop of the multi-block write, on the
  32-bit counter of the source: entered with \<open>blockCnt = 0\<close> the decrement wraps.
\<close>

lemma block_count_decreases:
  "blockCnt \<noteq> 1 \<Longrightarrow> unat (blockCnt - 2 :: 32 word) < unat (blockCnt - 1)"
  using unat_minus_one [of "blockCnt - 1"] by (simp add: unat_gt_0)

function write_blocks_loop ::
  "config \<Rightarrow> byte list \<Rightarrow> nat \<Rightarrow> 32 word \<Rightarrow> world \<Rightarrow> sd_error \<times> world" where
  "write_blocks_loop cfg buffer off blockCnt w =
     (let (status, w1) =
            sd_write_block cfg (load buffer off block_size) SPI_START_BLK_MUL_WRITE block_size w
      in if blockCnt - 1 \<noteq> 0 \<and> status = SD_BLOCK_DEVICE_ERROR_NONE
         then write_blocks_loop cfg buffer (off + block_size) (blockCnt - 1) w1
         else (status, w1))"
  by pat_completeness auto
termination
  by (relation "measure (\<lambda>(cfg, buffer, off, blockCnt, w). unat (blockCnt - 1))")
     (auto simp: block_count_decreases)

declare write_blocks_loop.simps [simp del]

definition in_sd_write_blocks ::
  "config \<Rightarrow> sd_card \<Rightarrow> byte list \<Rightarrow> 64 word \<Rightarrow> 32 word \<Rightarrow> world
     \<Rightarrow> sd_error \<times> sd_card \<times> world" where
  "in_sd_write_blocks cfg sd buffer ulSectorNumber blockCnt w =
     (if ulSectorNumber + ucast blockCnt > sectors sd
      then (SD_BLOCK_DEVICE_ERROR_PARAMETER, sd, w)
      else if m_Status sd AND (STA_NOINIT OR STA_NODISK) \<noteq> 0
      then (SD_BLOCK_DEVICE_ERROR_PARAMETER, sd, w)
      else
        let addr = (if card_type sd = SDCARD_V2HC then ulSectorNumber
                    else ulSectorNumber * of_nat block_size)
        in if blockCnt = 1 then
             (let (status, r, sd1, w1) = sd_cmd cfg sd CMD24_WRITE_BLOCK (ucast addr) False w
              in if status \<noteq> SD_BLOCK_DEVICE_ERROR_NONE then (status, sd1, w1)
                 else
                   let (s, w2) = sd_write_block cfg (load buffer 0 block_size)
                                   SPI_START_BLOCK block_size w1;
                       w3 = emit DeselectPulse w2;
                       (status1, stat, sd2, w4) = sd_cmd cfg sd1 CMD13_SEND_STATUS 0 False w3
                   in (status1, sd2, w4))
           else
             (let (s, r, sd1, w1) = sd_cmd cfg sd ACMD23_SET_WR_BLK_ERASE_COUNT blockCnt True w;
                  w2 = emit DeselectPulse w1;
                  (status, r1, sd2, w3) =
                    sd_cmd cfg sd1 CMD25_WRITE_MULTIPLE_BLOCK (ucast addr) False w2
              in if status \<noteq> SD_BLOCK_DEVICE_ERROR_NONE then (status, sd2, w3)
                 else
                   let (status1, w4) = write_blocks_loop cfg buffer 0 blockCnt w3;
                       w5 = snd (sd_spi_write SPI_STOP_TRAN w4);
                       w6 = emit DeselectPulse w5;
                       (status2, stat, sd3, w7) = sd_cmd cfg sd2 CMD13_SEND_STATUS 0 False w6
                   in (status2, sd3, w7)))"

definition sd_write_blocks ::
  "config \<Rightarrow> sd_card \<Rightarrow> byte list \<Rightarrow> 64 word \<Rightarrow> 32 word \<Rightarrow> world
     \<Rightarrow> sd_error \<times> sd_card \<times> world" where
  "sd_write_blocks cfg sd buffer ulSectorNumber blockCnt w =
     (let (status, sd1, w1) =
            in_sd_write_blocks cfg sd buffer ulSectorNumber blockCnt (sd_acquire w)
      in (status, sd1, sd_release w1))"

subsection \<open>What a bus operation may do to the world\<close>

text \<open>
  Every function of the command layer only appends bus events to the trace, and
  never adds readings to the clock. The second fact is what makes the polling loop
  of the initialisation terminate; the first is used for the resource layer.
\<close>

definition bus_step :: "world \<Rightarrow> world \<Rightarrow> bool" where
  "bus_step w w' \<longleftrightarrow>
     (\<exists>es. trace w' = trace w @ es \<and> list_all is_bus es)
     \<and> length (clock w') \<le> length (clock w)"

lemma bus_step_refl: "bus_step w w"
  by (simp add: bus_step_def)

lemma bus_step_trans: "bus_step w0 w \<Longrightarrow> bus_step w w' \<Longrightarrow> bus_step w0 w'"
  by (auto simp: bus_step_def)

lemma bus_step_emit: "is_bus e \<Longrightarrow> bus_step w (emit e w)"
  by (auto simp: bus_step_def emit_def)

lemma bus_step_sd_spi_write: "sd_spi_write v w = (r, w') \<Longrightarrow> bus_step w w'"
  by (auto simp: sd_spi_write_def bus_step_def emit_def split: list.splits)

lemma bus_step_sd_spi_write_snd: "bus_step w (snd (sd_spi_write v w))"
  by (rule bus_step_sd_spi_write [OF surjective_pairing])

lemma bus_step_make_timeout_time_ms: "make_timeout_time_ms ms w = (t, w') \<Longrightarrow> bus_step w w'"
  by (auto simp: make_timeout_time_ms_def bus_step_def split: list.splits)

lemma bus_step_deadline_pending: "deadline_pending t w = (p, w') \<Longrightarrow> bus_step w w'"
  by (auto simp: deadline_pending_def bus_step_def split: list.splits)

lemma clock_sd_spi_write: "sd_spi_write v w = (r, w') \<Longrightarrow> clock w' = clock w"
  by (auto simp: sd_spi_write_def emit_def split: list.splits)

lemma clock_deadline_pending:
  "deadline_pending t w = (True, w') \<Longrightarrow> length (clock w') < length (clock w)"
  by (auto simp: deadline_pending_def split: list.splits)

lemma bus_step_spi_transfer_rx: "spi_transfer_rx n w = (d, w') \<Longrightarrow> bus_step w w'"
  by (auto simp: spi_transfer_rx_def bus_step_def emit_def)

lemma bus_step_spi_transfer_tx: "bus_step w (spi_transfer_tx d n w)"
  by (auto simp: spi_transfer_tx_def bus_step_def emit_def)

lemma bus_step_wait_complete:
  "sd_spi_transfer_wait_complete w = (ok, w') \<Longrightarrow> bus_step w w'"
  by (auto simp: sd_spi_transfer_wait_complete_def bus_step_def emit_def split: list.splits)

lemma bus_step_send_bytes: "bus_step w (send_bytes bs w)"
proof (induction bs arbitrary: w)
  case Nil
  show ?case by (simp add: bus_step_refl)
next
  case (Cons b bs)
  show ?case
    using bus_step_trans [OF bus_step_sd_spi_write_snd Cons.IH] by simp
qed

lemma bus_step_poll_response: "poll_response n r w = (r', w') \<Longrightarrow> bus_step w w'"
proof (induction n arbitrary: r w)
  case 0
  then show ?case by (simp add: bus_step_refl)
next
  case (Suc n)
  obtain x w1 where e: "sd_spi_write SPI_FILL_CHAR w = (x, w1)" by fastforce
  note s = bus_step_sd_spi_write [OF e]
  have ih: "poll_response n x w1 = (r', w') \<Longrightarrow> bus_step w w'"
    by (rule bus_step_trans [OF s Suc.IH])
  from Suc.prems e s ih show ?case
    by (auto split: if_splits)
qed

lemma bus_step_sd_cmd_spi: "sd_cmd_spi cfg cmd arg w = (r, w') \<Longrightarrow> bus_step w w'"
proof -
  assume a: "sd_cmd_spi cfg cmd arg w = (r, w')"
  define w1 where "w1 = send_bytes (cmdPacket cfg cmd arg) w"
  define w2 where "w2 = (if cmd = CMD12_STOP_TRANSMISSION then snd (sd_spi_write SPI_FILL_CHAR w1) else w1)"
  have s1: "bus_step w w1" unfolding w1_def by (rule bus_step_send_bytes)
  have s2: "bus_step w w2"
    unfolding w2_def using s1 bus_step_trans [OF s1 bus_step_sd_spi_write_snd] by simp
  from a have "poll_response 0x10 R1_NO_RESPONSE w2 = (r, w')"
    by (auto simp: sd_cmd_spi_def w1_def w2_def Let_def split: if_splits)
  from bus_step_trans [OF s2 bus_step_poll_response [OF this]] show ?thesis .
qed

lemma bus_step_sd_wait_ready_loop: "sd_wait_ready_loop t w = (r, w') \<Longrightarrow> bus_step w w'"
proof (induction "length (clock w)" arbitrary: w rule: less_induct)
  case less
  obtain x w1 where e: "sd_spi_write 0xFF w = (x, w1)" by fastforce
  obtain p w2 where d: "deadline_pending t w1 = (p, w2)" by fastforce
  note s = bus_step_sd_spi_write [OF e]
  note s2 = bus_step_trans [OF s bus_step_deadline_pending [OF d]]
  have ih: "p \<Longrightarrow> sd_wait_ready_loop t w2 = (r, w') \<Longrightarrow> bus_step w w'"
    using less.hyps [of w2] clock_deadline_pending [of t w1 w2] clock_sd_spi_write [OF e] d
          bus_step_trans [OF s2]
    by auto
  from less.prems e d s s2 ih show ?case
    by (subst (asm) sd_wait_ready_loop.simps) (auto split: if_splits)
qed

lemma bus_step_sd_wait_ready: "sd_wait_ready t w = (r, w') \<Longrightarrow> bus_step w w'"
proof -
  assume a: "sd_wait_ready t w = (r, w')"
  obtain tt w1 where e: "make_timeout_time_ms t w = (tt, w1)" by fastforce
  obtain x w2 where d: "sd_wait_ready_loop tt w1 = (x, w2)" by fastforce
  from a e d have "w' = w2" by (simp add: sd_wait_ready_def)
  with bus_step_trans [OF bus_step_make_timeout_time_ms [OF e] bus_step_sd_wait_ready_loop [OF d]]
  show ?thesis by simp
qed

lemma bus_step_sd_wait_ready_snd: "bus_step w (snd (sd_wait_ready t w))"
  by (rule bus_step_sd_wait_ready [OF surjective_pairing])

lemma bus_step_sd_cmd_retry:
  "sd_cmd_retry cfg n cmd arg isAcmd r w = (r', w') \<Longrightarrow> bus_step w w'"
proof (induction n arbitrary: r w)
  case 0
  then show ?case by (simp add: bus_step_refl)
next
  case (Suc n)
  define w1 where "w1 = (if isAcmd
                then snd (sd_wait_ready SD_COMMAND_TIMEOUT (snd (sd_cmd_spi cfg CMD55_APP_CMD 0x0 w)))
                else w)"
  obtain x w2 where e: "sd_cmd_spi cfg cmd arg w1 = (x, w2)" by fastforce
  have s1: "bus_step w w1"
    unfolding w1_def
    using bus_step_trans [OF bus_step_sd_cmd_spi [OF surjective_pairing] bus_step_sd_wait_ready_snd]
    by (simp add: bus_step_refl)
  note s2 = bus_step_trans [OF s1 bus_step_sd_cmd_spi [OF e]]
  have ih: "sd_cmd_retry cfg n cmd arg isAcmd x w2 = (r', w') \<Longrightarrow> bus_step w w'"
    by (rule bus_step_trans [OF s2 Suc.IH])
  from Suc.prems have "(if x = R1_NO_RESPONSE then sd_cmd_retry cfg n cmd arg isAcmd x w2 else (x, w2)) = (r', w')"
    by (simp add: w1_def [symmetric] e Let_def)
  with s2 ih show ?case
    by (auto split: if_splits)
qed

lemma bus_step_read_r3_r7: "read_r3_r7 w = (r, w') \<Longrightarrow> bus_step w w'"
proof -
  assume a: "read_r3_r7 w = (r, w')"
  obtain b3 w1 where e1: "sd_spi_write SPI_FILL_CHAR w = (b3, w1)" by fastforce
  obtain b2 w2 where e2: "sd_spi_write SPI_FILL_CHAR w1 = (b2, w2)" by fastforce
  obtain b1 w3 where e3: "sd_spi_write SPI_FILL_CHAR w2 = (b1, w3)" by fastforce
  obtain b0 w4 where e4: "sd_spi_write SPI_FILL_CHAR w3 = (b0, w4)" by fastforce
  from a e1 e2 e3 e4 have "w' = w4" by (simp add: read_r3_r7_def)
  with bus_step_trans [OF bus_step_trans [OF bus_step_trans [OF bus_step_sd_spi_write [OF e1]
        bus_step_sd_spi_write [OF e2]] bus_step_sd_spi_write [OF e3]] bus_step_sd_spi_write [OF e4]]
  show ?thesis by simp
qed

lemma bus_step_sd_cmd:
  "sd_cmd cfg sd cmd arg isAcmd w = (st, r, sd', w') \<Longrightarrow> bus_step w w'"
proof -
  assume a: "sd_cmd cfg sd cmd arg isAcmd w = (st, r, sd', w')"
  obtain ready w1 where e1:
    "(if cmd \<noteq> CMD12_STOP_TRANSMISSION \<and> cmd \<noteq> CMD0_GO_IDLE_STATE
      then sd_wait_ready SD_COMMAND_TIMEOUT w else (True, w)) = (ready, w1)" by fastforce
  obtain x w2 where e2:
    "sd_cmd_retry cfg SD_COMMAND_RETRIES cmd arg isAcmd R1_NO_RESPONSE w1 = (x, w2)" by fastforce
  obtain r3 w3 where e3: "read_r3_r7 w2 = (r3, w3)" by fastforce
  obtain b w4 where e4: "sd_spi_write SPI_FILL_CHAR w2 = (b, w4)" by fastforce
  have s1: "bus_step w w1"
    using e1 by (auto split: if_splits intro: bus_step_refl bus_step_sd_wait_ready)
  note s2 = bus_step_trans [OF s1 bus_step_sd_cmd_retry [OF e2]]
  note s3 = bus_step_trans [OF s2 bus_step_read_r3_r7 [OF e3]]
  note s4 = bus_step_trans [OF s2 bus_step_sd_spi_write [OF e4]]
  note s5 = bus_step_trans [OF s2 bus_step_sd_wait_ready_snd [of w2 SD_COMMAND_TIMEOUT]]
  from a s1 s2 s3 s4 s5 show ?thesis
    unfolding sd_cmd_def e1 Let_def prod.case e2 e3 e4
    by (auto split: if_splits)
qed


lemma clock_sd_cmd:
  "sd_cmd cfg sd cmd arg isAcmd w = (st, r, sd', w') \<Longrightarrow> length (clock w') \<le> length (clock w)"
  using bus_step_sd_cmd [of cfg sd cmd arg isAcmd w st r sd' w'] by (simp add: bus_step_def)

subsection \<open>Initialisation\<close>

text \<open>The retry loop of \<open>sd_go_idle_state\<close>, with \<open>n\<close> attempts left.\<close>

fun sd_go_idle_state_loop ::
  "config \<Rightarrow> sd_card \<Rightarrow> nat \<Rightarrow> 32 word \<Rightarrow> world \<Rightarrow> 32 word \<times> sd_card \<times> world" where
  "sd_go_idle_state_loop cfg sd 0 response w = (response, sd, w)"
| "sd_go_idle_state_loop cfg sd (Suc n) response w =
     (let (status, r, sd1, w1) = sd_cmd cfg sd CMD0_GO_IDLE_STATE 0x0 False w;
          response1 = (case r of None \<Rightarrow> response | Some v \<Rightarrow> v)
      in if response1 = ucast R1_IDLE_STATE then (response1, sd1, w1)
         else sd_go_idle_state_loop cfg sd1 n response1
                (emit Select (emit (BusyWait (100 * 1000)) (emit Deselect w1))))"

definition sd_go_idle_state :: "config \<Rightarrow> sd_card \<Rightarrow> world \<Rightarrow> 32 word \<times> sd_card \<times> world" where
  "sd_go_idle_state cfg sd w =
     sd_go_idle_state_loop cfg sd SD_CMD0_GO_IDLE_STATE_RETRIES (ucast R1_NO_RESPONSE) w"

text \<open>
  The \<open>do ... while (--retries && ...)\<close> loop that enables CRC, with \<open>n\<close>
  further attempts allowed after this one.
\<close>

fun crc_enable_loop :: "config \<Rightarrow> sd_card \<Rightarrow> nat \<Rightarrow> world \<Rightarrow> sd_error \<times> sd_card \<times> world" where
  "crc_enable_loop cfg sd 0 w =
     (let (status, r, sd1, w1) = sd_cmd cfg sd CMD59_CRC_ON_OFF 1 False w in (status, sd1, w1))"
| "crc_enable_loop cfg sd (Suc n) w =
     (let (status, r, sd1, w1) = sd_cmd cfg sd CMD59_CRC_ON_OFF 1 False w
      in if status \<noteq> SD_BLOCK_DEVICE_ERROR_NONE then crc_enable_loop cfg sd1 n w1
         else (status, sd1, w1))"

text \<open>
  The ACMD41 poll. \<open>response\<close> is the caller's variable: a call of \<open>sd_cmd\<close>
  that returns before storing leaves it as it was.
\<close>

function acmd41_loop ::
  "config \<Rightarrow> sd_card \<Rightarrow> 32 word \<Rightarrow> int option \<Rightarrow> 32 word \<Rightarrow> world
     \<Rightarrow> sd_error \<times> 32 word \<times> sd_card \<times> world" where
  "acmd41_loop cfg sd arg timeout_time response w =
     (let (status, r, sd1, w1) = sd_cmd cfg sd ACMD41_SD_SEND_OP_COND arg True w;
          response1 = (case r of None \<Rightarrow> response | Some v \<Rightarrow> v)
      in if response1 AND ucast R1_IDLE_STATE \<noteq> 0 then
           (let (pending, w2) = deadline_pending timeout_time w1
            in if pending then acmd41_loop cfg sd1 arg timeout_time response1 w2
               else (status, response1, sd1, w2))
         else (status, response1, sd1, w1))"
  by pat_completeness auto
termination
proof (relation "measure (\<lambda>(cfg, sd, arg, t, response, w). length (clock w))")
  fix cfg sd arg timeout_time response w x status y r z sd1 w1 response1 xa pending w2
  assume "x = sd_cmd cfg sd ACMD41_SD_SEND_OP_COND arg True w" "(status, y) = x"
    "(r, z) = y" "(sd1, w1) = z" "xa = deadline_pending timeout_time w1"
    "(pending, w2) = xa" "pending"
  then have "length (clock w1) \<le> length (clock w)" "length (clock w2) < length (clock w1)"
    using clock_sd_cmd [of cfg sd ACMD41_SD_SEND_OP_COND arg True w status r sd1 w1]
          clock_deadline_pending [of timeout_time w1 w2]
    by auto
  then show "((cfg, sd1, arg, timeout_time, response1, w2), cfg, sd, arg, timeout_time, response, w)
               \<in> measure (\<lambda>(cfg, sd, arg, t, response, w). length (clock w))"
    by simp
qed simp

declare acmd41_loop.simps [simp del]

text \<open>
  \<open>sd_init_medium\<close>. Where the source reads \<open>response\<close> after a successful
  \<open>sd_cmd\<close> the value has been stored; the \<open>None\<close> branches are never taken.
\<close>

definition sd_init_medium :: "config \<Rightarrow> sd_card \<Rightarrow> world \<Rightarrow> sd_error \<times> sd_card \<times> world" where
  "sd_init_medium cfg sd w =
     (let w1 = emit InitSequence (emit LowFrequency w);
          (response0, sd1, w2) = sd_go_idle_state cfg sd w1
      in if response0 \<noteq> ucast R1_IDLE_STATE then (SD_BLOCK_DEVICE_ERROR_NO_DEVICE, sd1, w2)
      else
        let (status, sd2, w3) = sd_cmd8 cfg sd1 w2
        in if status \<noteq> SD_BLOCK_DEVICE_ERROR_NONE \<and> status \<noteq> SD_BLOCK_DEVICE_ERROR_UNSUPPORTED
           then (status, sd2, w3)
        else
          let (status1, sd3, w4) =
                (if crc_on cfg then crc_enable_loop cfg sd2 2 w3 else (status, sd2, w3));
              (status2, r, sd4, w5) = sd_cmd cfg sd3 CMD58_READ_OCR 0x0 False w4;
              response = (case r of None \<Rightarrow> 0 | Some v \<Rightarrow> v)
          in if status2 \<noteq> SD_BLOCK_DEVICE_ERROR_NONE then (status2, sd4, w5)
          else if response AND OCR_3_3V = 0
            then (SD_BLOCK_DEVICE_ERROR_UNUSABLE, sd4\<lparr>card_type := CARD_UNKNOWN\<rparr>, w5)
          else
            let arg = (if card_type sd4 = SDCARD_V2 then OCR_HCS_CCS else 0x0);
                (timeout_time, w6) = make_timeout_time_ms SD_COMMAND_TIMEOUT w5;
                (status3, response1, sd5, w7) = acmd41_loop cfg sd4 arg timeout_time response w6
            in if status3 \<noteq> SD_BLOCK_DEVICE_ERROR_NONE \<or> response1 \<noteq> 0x00
               then (status3, sd5\<lparr>card_type := CARD_UNKNOWN\<rparr>, w7)
            else
              let (status4, sd6, w8) =
                    (if card_type sd5 = SDCARD_V2 then
                       (let (s, r1, sd', w') = sd_cmd cfg sd5 CMD58_READ_OCR 0x0 False w7;
                            response2 = (case r1 of None \<Rightarrow> response1 | Some v \<Rightarrow> v)
                        in if s = SD_BLOCK_DEVICE_ERROR_NONE \<and> response2 AND OCR_HCS_CCS \<noteq> 0
                           then (s, sd'\<lparr>card_type := SDCARD_V2HC\<rparr>, w')
                           else (s, sd', w'))
                     else (status3, sd5\<lparr>card_type := SDCARD_V1\<rparr>, w7))
              in if \<not> crc_on cfg
                 then (let (s, r2, sd7, w9) = sd_cmd cfg sd6 CMD59_CRC_ON_OFF 0 False w8
                       in (s, sd7, w9))
                 else (status4, sd6, w8))"

text \<open>The probing loop of \<open>sd_spi_test_com\<close>: up to \<open>n\<close> raw commands.\<close>

fun test_com_loop :: "config \<Rightarrow> cmdSupported \<Rightarrow> nat \<Rightarrow> world \<Rightarrow> bool \<times> world" where
  "test_com_loop cfg cmd 0 w = (False, w)"
| "test_com_loop cfg cmd (Suc n) w =
     (let (response, w1) = sd_cmd_spi cfg cmd 0 w
      in if response \<noteq> R1_NO_RESPONSE then (True, w1) else test_com_loop cfg cmd n w1)"

definition sd_spi_test_com :: "config \<Rightarrow> sd_card \<Rightarrow> world \<Rightarrow> bool \<times> sd_card \<times> world" where
  "sd_spi_test_com cfg sd w =
     (let w0 = sd_acquire w
      in if m_Status sd AND STA_NOINIT = 0 then
           (let (ready, w1) = sd_wait_ready 0 w0
            in if ready then
                 (let (success, w2) = test_com_loop cfg CMD13_SEND_STATUS SD_COMMAND_RETRIES w1;
                      sd1 = (if \<not> success then sd\<lparr>m_Status := m_Status sd OR STA_NOINIT\<rparr> else sd)
                  in (success, sd1, sd_release w2))
               else (True, sd, sd_release w1))
         else
           (let sd1 = sd\<lparr>card_type := SDCARD_NONE\<rparr>;
                w1 = emit InitSequence (emit LowFrequency w0);
                (ready, w2) = sd_wait_ready 0 w1
            in if ready then
                 (let (success, w3) = test_com_loop cfg CMD0_GO_IDLE_STATE SD_COMMAND_RETRIES w2
                  in (success, sd1, sd_release w3))
               else (False, sd1, sd_release w2)))"

text \<open>\<open>sd_init\<close> returns the status bits of the session.\<close>

definition sd_init :: "config \<Rightarrow> sd_card \<Rightarrow> world \<Rightarrow> byte \<times> sd_card \<times> world" where
  "sd_init cfg sd w =
     (let w1 = sd_lock w;
          sd1 = sd_card_detect sd w1
      in if m_Status sd1 AND STA_NODISK \<noteq> 0 then (m_Status sd1, sd1, sd_unlock w1)
      else if m_Status sd1 AND STA_NOINIT = 0 then (m_Status sd1, sd1, sd_unlock w1)
      else
        let sd2 = sd1\<lparr>card_type := SDCARD_NONE\<rparr>;
            w2 = sd_spi_acquire w1;
            (err, sd3, w3) = sd_init_medium cfg sd2 w2
        in if err \<noteq> SD_BLOCK_DEVICE_ERROR_NONE then (m_Status sd3, sd3, sd_release w3)
        else
          let (n, sd4, w4) = in_sd_spi_sectors cfg sd3 w3;
              sd5 = sd4\<lparr>sectors := n\<rparr>
          in if n = 0 then (m_Status sd5, sd5, sd_release w4)
          else
            let (status, r, sd6, w5) = sd_cmd cfg sd5 CMD10_SEND_CID 0x0 False w4
            in if status \<noteq> SD_BLOCK_DEVICE_ERROR_NONE then (m_Status sd6, sd6, sd_release w5)
            else
              let (status1, c, w6) = sd_read_bytes cfg (cid sd6) 16 w5;
                  sd7 = sd6\<lparr>cid := c\<rparr>
              in if status1 \<noteq> SD_BLOCK_DEVICE_ERROR_NONE then (m_Status sd7, sd7, sd_release w6)
              else
                let (status2, r2, sd8, w7) =
                      sd_cmd cfg sd7 CMD16_SET_BLOCKLEN (of_nat block_size) False w6
                in if status2 \<noteq> SD_BLOCK_DEVICE_ERROR_NONE
                   then (m_Status sd8, sd8, sd_release w7)
                   else
                     let w8 = emit HighFrequency (emit Deselect w7);
                         sd9 = sd8\<lparr>m_Status := m_Status sd8 AND NOT STA_NOINIT\<rparr>
                     in (m_Status sd9, sd9, sd_release w8))"

subsection \<open>The same for the data transfer and the initialisation\<close>

text \<open>
  The rules named \<open>via_...\<close> carry a step from a fixed starting world across one
  more call; the lemmas named \<open>bus_step_...\<close> say that a whole function only adds
  bus events.
\<close>

lemma via_emit: "is_bus e \<Longrightarrow> bus_step w w1 \<Longrightarrow> bus_step w (emit e w1)"
  by (blast intro: bus_step_trans bus_step_emit)

lemma via_sd_spi_write: "sd_spi_write v w1 = (r, w2) \<Longrightarrow> bus_step w w1 \<Longrightarrow> bus_step w w2"
  by (blast intro: bus_step_trans bus_step_sd_spi_write)

lemma via_sd_spi_write_snd: "bus_step w w1 \<Longrightarrow> bus_step w (snd (sd_spi_write v w1))"
  by (blast intro: bus_step_trans bus_step_sd_spi_write_snd)

lemma via_make_timeout_time_ms:
  "make_timeout_time_ms ms w1 = (t, w2) \<Longrightarrow> bus_step w w1 \<Longrightarrow> bus_step w w2"
  by (blast intro: bus_step_trans bus_step_make_timeout_time_ms)

lemma via_deadline_pending:
  "deadline_pending t w1 = (p, w2) \<Longrightarrow> bus_step w w1 \<Longrightarrow> bus_step w w2"
  by (blast intro: bus_step_trans bus_step_deadline_pending)

lemma via_spi_transfer_rx:
  "spi_transfer_rx n w1 = (d, w2) \<Longrightarrow> bus_step w w1 \<Longrightarrow> bus_step w w2"
  by (blast intro: bus_step_trans bus_step_spi_transfer_rx)

lemma via_spi_transfer_tx: "bus_step w w1 \<Longrightarrow> bus_step w (spi_transfer_tx d n w1)"
  by (blast intro: bus_step_trans bus_step_spi_transfer_tx)

lemma via_wait_complete:
  "sd_spi_transfer_wait_complete w1 = (ok, w2) \<Longrightarrow> bus_step w w1 \<Longrightarrow> bus_step w w2"
  by (blast intro: bus_step_trans bus_step_wait_complete)

lemma via_sd_cmd_spi:
  "sd_cmd_spi cfg cmd arg w1 = (r, w2) \<Longrightarrow> bus_step w w1 \<Longrightarrow> bus_step w w2"
  by (blast intro: bus_step_trans bus_step_sd_cmd_spi)

lemma via_sd_wait_ready:
  "sd_wait_ready t w1 = (r, w2) \<Longrightarrow> bus_step w w1 \<Longrightarrow> bus_step w w2"
  by (blast intro: bus_step_trans bus_step_sd_wait_ready)

lemma via_sd_cmd:
  "sd_cmd cfg sd cmd arg isAcmd w1 = (st, r, sd', w2) \<Longrightarrow> bus_step w w1 \<Longrightarrow> bus_step w w2"
  by (blast intro: bus_step_trans bus_step_sd_cmd)

lemma bus_step_sd_cmd8: "sd_cmd8 cfg sd w = (st, sd', w') \<Longrightarrow> bus_step w w'"
  by (auto simp: sd_cmd8_def Let_def split: prod.splits if_splits;
      blast intro: via_sd_cmd bus_step_refl)

lemma bus_step_sd_wait_token_loop: "sd_wait_token_loop k t w = (r, w') \<Longrightarrow> bus_step w w'"
proof (induction "length (clock w)" arbitrary: w rule: less_induct)
  case less
  obtain x w1 where e: "sd_spi_write SPI_FILL_CHAR w = (x, w1)" by fastforce
  obtain p w2 where d: "deadline_pending t w1 = (p, w2)" by fastforce
  note s = bus_step_sd_spi_write [OF e]
  note s2 = bus_step_trans [OF s bus_step_deadline_pending [OF d]]
  have ih: "p \<Longrightarrow> sd_wait_token_loop k t w2 = (r, w') \<Longrightarrow> bus_step w w'"
    using less.hyps [of w2] clock_deadline_pending [of t w1 w2] clock_sd_spi_write [OF e] d
          bus_step_trans [OF s2]
    by auto
  from less.prems e d s s2 ih show ?case
    by (subst (asm) sd_wait_token_loop.simps) (auto split: if_splits)
qed

lemma bus_step_sd_wait_token: "sd_wait_token k w = (r, w') \<Longrightarrow> bus_step w w'"
  by (auto simp: sd_wait_token_def split: prod.splits;
      blast intro: bus_step_trans bus_step_make_timeout_time_ms bus_step_sd_wait_token_loop)

lemma via_sd_wait_token:
  "sd_wait_token k w1 = (r, w2) \<Longrightarrow> bus_step w w1 \<Longrightarrow> bus_step w w2"
  by (blast intro: bus_step_trans bus_step_sd_wait_token)

lemma bus_step_read_crc: "read_crc w = (c, w') \<Longrightarrow> bus_step w w'"
  by (auto simp: read_crc_def split: prod.splits;
      blast intro: via_sd_spi_write bus_step_refl)

lemma via_read_crc: "read_crc w1 = (c, w2) \<Longrightarrow> bus_step w w1 \<Longrightarrow> bus_step w w2"
  by (blast intro: bus_step_trans bus_step_read_crc)

lemma bus_step_read_n: "read_n n w = (bs, w') \<Longrightarrow> bus_step w w'"
proof (induction n arbitrary: w bs w')
  case 0
  then show ?case by (simp add: bus_step_refl)
next
  case (Suc n)
  then show ?case
    by (auto split: prod.splits intro: bus_step_trans [OF bus_step_sd_spi_write])
qed

lemma via_read_n: "read_n n w1 = (bs, w2) \<Longrightarrow> bus_step w w1 \<Longrightarrow> bus_step w w2"
  by (blast intro: bus_step_trans bus_step_read_n)

lemma bus_step_sd_read_bytes: "sd_read_bytes cfg buf len w = (st, buf', w') \<Longrightarrow> bus_step w w'"
  by (auto simp: sd_read_bytes_def Let_def split: prod.splits if_splits;
      blast intro: via_sd_wait_token via_read_n via_read_crc bus_step_refl)

lemma via_sd_read_bytes:
  "sd_read_bytes cfg buf len w1 = (st, buf', w2) \<Longrightarrow> bus_step w w1 \<Longrightarrow> bus_step w w2"
  by (blast intro: bus_step_trans bus_step_sd_read_bytes)

lemma bus_step_in_sd_spi_sectors: "in_sd_spi_sectors cfg sd w = (n, sd', w') \<Longrightarrow> bus_step w w'"
  by (auto simp: in_sd_spi_sectors_def Let_def split: prod.splits if_splits;
      blast intro: via_sd_cmd via_sd_read_bytes bus_step_refl)

lemma bus_step_read_blocks_loop:
  "read_blocks_loop cfg n st crc prev addr buf w = (st', crc', prev', buf', w') \<Longrightarrow> bus_step w w'"
proof (induction n arbitrary: st crc prev addr buf w)
  case 0
  then show ?case by (simp add: bus_step_refl)
next
  case (Suc n)
  obtain found w1 where e1: "sd_wait_token SPI_START_BLOCK w = (found, w1)" by fastforce
  obtain data w2 where e2: "spi_transfer_rx block_size w1 = (data, w2)" by fastforce
  obtain ok w3 where e3: "sd_spi_transfer_wait_complete w2 = (ok, w3)" by fastforce
  obtain c w4 where e4: "read_crc w3 = (c, w4)" by fastforce
  note s1 = bus_step_sd_wait_token [OF e1]
  note s2 = bus_step_trans [OF s1 bus_step_spi_transfer_rx [OF e2]]
  note s3 = bus_step_trans [OF s2 bus_step_wait_complete [OF e3]]
  note s4 = bus_step_trans [OF s3 bus_step_read_crc [OF e4]]
  have ih: "\<And>st crc prev addr buf. read_blocks_loop cfg n st crc prev addr buf w4 = (st', crc', prev', buf', w')
              \<Longrightarrow> bus_step w w'"
    by (rule bus_step_trans [OF s4 Suc.IH])
  from Suc.prems s1 s3 ih show ?case
    by (simp add: e1 e2 e3 e4 Let_def bus_step_refl split: if_splits)
qed

lemma bus_step_in_sd_read_blocks:
  "in_sd_read_blocks cfg sd buf sector count w = (st, sd', buf', w') \<Longrightarrow> bus_step w w'"
proof -
  assume a: "in_sd_read_blocks cfg sd buf sector count w = (st, sd', buf', w')"
  define addr where "addr = (if card_type sd = SDCARD_V2HC then sector else sector * of_nat block_size)"
  obtain status r sd1 w1 where e1:
    "(if count = 1 then sd_cmd cfg sd CMD17_READ_SINGLE_BLOCK (ucast addr) False w
      else sd_cmd cfg sd CMD18_READ_MULTIPLE_BLOCK (ucast addr) False w) = (status, r, sd1, w1)"
    by (metis prod_cases4)
  obtain status1 crc prev buf1 w2 where e2:
    "read_blocks_loop cfg (unat count) SD_BLOCK_DEVICE_ERROR_NONE 0 None 0 buf w1
       = (status1, crc, prev, buf1, w2)"
    by (metis prod_cases5)
  obtain s r2 sd2 w3 where e3:
    "sd_cmd cfg sd1 CMD12_STOP_TRANSMISSION 0x0 False w2 = (s, r2, sd2, w3)"
    by (metis prod_cases4)
  have s1: "bus_step w w1"
    using e1 by (auto split: if_splits intro: bus_step_sd_cmd)
  note s2 = bus_step_trans [OF s1 bus_step_read_blocks_loop [OF e2]]
  note s3 = bus_step_trans [OF s2 bus_step_sd_cmd [OF e3]]
  from a s1 s2 s3 show ?thesis
    unfolding in_sd_read_blocks_def Let_def addr_def [symmetric] e1 prod.case
    by (auto simp: e2 e3 bus_step_refl split: if_splits)
qed

lemma bus_step_sd_write_block:
  "sd_write_block cfg buffer token len w = (st, w') \<Longrightarrow> bus_step w w'"
proof -
  assume a: "sd_write_block cfg buffer token len w = (st, w')"
  define w1 where "w1 = snd (sd_spi_write token w)"
  define w2 where "w2 = spi_transfer_tx buffer len w1"
  define crc where "crc = (if crc_on cfg then crc16 cfg buffer else (NOT 0 :: 16 word))"
  obtain ok w3 where e3: "sd_spi_transfer_wait_complete w2 = (ok, w3)" by fastforce
  define w4 where "w4 = snd (sd_spi_write (ucast (drop_bit 8 crc)) w3)"
  define w5 where "w5 = snd (sd_spi_write (ucast crc) w4)"
  obtain response w6 where e6: "sd_spi_write SPI_FILL_CHAR w5 = (response, w6)" by fastforce
  obtain ready w7 where e7: "sd_wait_ready SD_COMMAND_TIMEOUT w6 = (ready, w7)" by fastforce
  have s1: "bus_step w w1" unfolding w1_def by (rule bus_step_sd_spi_write_snd)
  have s2: "bus_step w w2" unfolding w2_def by (rule via_spi_transfer_tx [OF s1])
  note s3 = bus_step_trans [OF s2 bus_step_wait_complete [OF e3]]
  have s4: "bus_step w w4" unfolding w4_def by (rule via_sd_spi_write_snd [OF s3])
  have s5: "bus_step w w5" unfolding w5_def by (rule via_sd_spi_write_snd [OF s4])
  note s6 = bus_step_trans [OF s5 bus_step_sd_spi_write [OF e6]]
  note s7 = bus_step_trans [OF s6 bus_step_sd_wait_ready [OF e7]]
  from a s3 s6 s7 show ?thesis
    unfolding sd_write_block_def Let_def w1_def [symmetric] w2_def [symmetric] crc_def [symmetric]
      e3 prod.case w4_def [symmetric] w5_def [symmetric] e6 e7
    by (auto split: if_splits)
qed

lemma bus_step_write_blocks_loop:
  "write_blocks_loop cfg buffer off blockCnt w = (st, w') \<Longrightarrow> bus_step w w'"
proof (induction "unat (blockCnt - 1)" arbitrary: off blockCnt w rule: less_induct)
  case less
  obtain status w1 where e:
    "sd_write_block cfg (load buffer off block_size) SPI_START_BLK_MUL_WRITE block_size w
       = (status, w1)" by fastforce
  note s = bus_step_sd_write_block [OF e]
  have ih: "blockCnt - 1 \<noteq> 0 \<Longrightarrow>
            write_blocks_loop cfg buffer (off + block_size) (blockCnt - 1) w1 = (st, w')
            \<Longrightarrow> bus_step w w'"
    using less.hyps [of "blockCnt - 1" "off + block_size" w1] block_count_decreases [of blockCnt]
          bus_step_trans [OF s]
    by auto
  from less.prems e s ih show ?case
    by (subst (asm) write_blocks_loop.simps) (auto split: if_splits)
qed

lemma bus_step_in_sd_write_blocks:
  "in_sd_write_blocks cfg sd buffer sector blockCnt w = (st, sd', w') \<Longrightarrow> bus_step w w'"
proof -
  assume a: "in_sd_write_blocks cfg sd buffer sector blockCnt w = (st, sd', w')"
  define addr where "addr = (if card_type sd = SDCARD_V2HC then sector else sector * of_nat block_size)"
  obtain sa ra sda wa where ea:
    "sd_cmd cfg sd CMD24_WRITE_BLOCK (ucast addr) False w = (sa, ra, sda, wa)"
    by (metis prod_cases4)
  obtain sb wb where eb:
    "sd_write_block cfg (load buffer 0 block_size) SPI_START_BLOCK block_size wa = (sb, wb)"
    by fastforce
  obtain sc rc sdc wc where ec:
    "sd_cmd cfg sda CMD13_SEND_STATUS 0 False (emit DeselectPulse wb) = (sc, rc, sdc, wc)"
    by (metis prod_cases4)
  obtain s1 r1 sd1 w1 where e1:
    "sd_cmd cfg sd ACMD23_SET_WR_BLK_ERASE_COUNT blockCnt True w = (s1, r1, sd1, w1)"
    by (metis prod_cases4)
  obtain s3 r3 sd2 w3 where e3:
    "sd_cmd cfg sd1 CMD25_WRITE_MULTIPLE_BLOCK (ucast addr) False (emit DeselectPulse w1)
       = (s3, r3, sd2, w3)"
    by (metis prod_cases4)
  obtain s4 w4 where e4: "write_blocks_loop cfg buffer 0 blockCnt w3 = (s4, w4)" by fastforce
  obtain s7 r7 sd3 w7 where e7:
    "sd_cmd cfg sd2 CMD13_SEND_STATUS 0 False
       (emit DeselectPulse (snd (sd_spi_write SPI_STOP_TRAN w4))) = (s7, r7, sd3, w7)"
    by (metis prod_cases4)
  note ta = bus_step_sd_cmd [OF ea]
  note tb = bus_step_trans [OF ta bus_step_sd_write_block [OF eb]]
  have tb': "bus_step w (emit DeselectPulse wb)" by (rule via_emit [OF _ tb]) simp
  note tc = bus_step_trans [OF tb' bus_step_sd_cmd [OF ec]]
  note t1 = bus_step_sd_cmd [OF e1]
  have t2: "bus_step w (emit DeselectPulse w1)" by (rule via_emit [OF _ t1]) simp
  note t3 = bus_step_trans [OF t2 bus_step_sd_cmd [OF e3]]
  note t4 = bus_step_trans [OF t3 bus_step_write_blocks_loop [OF e4]]
  have t6: "bus_step w (emit DeselectPulse (snd (sd_spi_write SPI_STOP_TRAN w4)))"
    by (rule via_emit [OF _ via_sd_spi_write_snd [OF t4]]) simp
  note t7 = bus_step_trans [OF t6 bus_step_sd_cmd [OF e7]]
  from a ta tc t3 t7 show ?thesis
    unfolding in_sd_write_blocks_def Let_def addr_def [symmetric] ea eb ec e1 e3 e4 e7 prod.case
    by (auto simp: bus_step_refl split: if_splits)
qed

lemma bus_step_sd_go_idle_state_loop:
  "sd_go_idle_state_loop cfg sd n response w = (response', sd', w') \<Longrightarrow> bus_step w w'"
proof (induction n arbitrary: sd response w)
  case 0
  then show ?case by (simp add: bus_step_refl)
next
  case (Suc n)
  obtain status r sd1 w1 where e: "sd_cmd cfg sd CMD0_GO_IDLE_STATE 0x0 False w = (status, r, sd1, w1)"
    by (metis prod_cases4)
  note s = bus_step_sd_cmd [OF e]
  have s2: "bus_step w (emit Select (emit (BusyWait (100 * 1000)) (emit Deselect w1)))"
    by (intro via_emit s) simp_all
  have ih: "\<And>sd response. sd_go_idle_state_loop cfg sd n response
               (emit Select (emit (BusyWait (100 * 1000)) (emit Deselect w1))) = (response', sd', w')
              \<Longrightarrow> bus_step w w'"
    by (rule bus_step_trans [OF s2 Suc.IH])
  from Suc.prems s ih show ?case
    by (simp add: e Let_def split: if_splits)
qed

lemma bus_step_sd_go_idle_state:
  "sd_go_idle_state cfg sd w = (response, sd', w') \<Longrightarrow> bus_step w w'"
  unfolding sd_go_idle_state_def by (rule bus_step_sd_go_idle_state_loop)

lemma bus_step_crc_enable_loop:
  "crc_enable_loop cfg sd n w = (st, sd', w') \<Longrightarrow> bus_step w w'"
proof (induction n arbitrary: sd w)
  case 0
  obtain status r sd1 w1 where e: "sd_cmd cfg sd CMD59_CRC_ON_OFF 1 False w = (status, r, sd1, w1)"
    by (metis prod_cases4)
  from "0.prems" bus_step_sd_cmd [OF e] show ?case by (simp add: e)
next
  case (Suc n)
  obtain status r sd1 w1 where e: "sd_cmd cfg sd CMD59_CRC_ON_OFF 1 False w = (status, r, sd1, w1)"
    by (metis prod_cases4)
  note s = bus_step_sd_cmd [OF e]
  have ih: "\<And>sd. crc_enable_loop cfg sd n w1 = (st, sd', w') \<Longrightarrow> bus_step w w'"
    by (rule bus_step_trans [OF s Suc.IH])
  from Suc.prems s ih show ?case
    by (simp add: e split: if_splits)
qed

lemma bus_step_acmd41_loop:
  "acmd41_loop cfg sd arg t response w = (st, response', sd', w') \<Longrightarrow> bus_step w w'"
proof (induction "length (clock w)" arbitrary: sd response w rule: less_induct)
  case less
  obtain status r sd1 w1 where e:
    "sd_cmd cfg sd ACMD41_SD_SEND_OP_COND arg True w = (status, r, sd1, w1)"
    by (metis prod_cases4)
  obtain p w2 where d: "deadline_pending t w1 = (p, w2)" by fastforce
  note s = bus_step_sd_cmd [OF e]
  note s2 = bus_step_trans [OF s bus_step_deadline_pending [OF d]]
  have ih: "\<And>sd response. p \<Longrightarrow> acmd41_loop cfg sd arg t response w2 = (st, response', sd', w')
              \<Longrightarrow> bus_step w w'"
    using less.hyps [of w2] clock_deadline_pending [of t w1 w2] clock_sd_cmd [OF e] d
          bus_step_trans [OF s2]
    by auto
  from less.prems s s2 ih show ?case
    by (subst (asm) acmd41_loop.simps) (simp add: e d Let_def split: if_splits)
qed

lemma bus_step_test_com_loop: "test_com_loop cfg cmd n w = (ok, w') \<Longrightarrow> bus_step w w'"
proof (induction n arbitrary: w)
  case 0
  then show ?case by (simp add: bus_step_refl)
next
  case (Suc n)
  obtain r w1 where e: "sd_cmd_spi cfg cmd 0 w = (r, w1)" by fastforce
  note s = bus_step_sd_cmd_spi [OF e]
  have ih: "test_com_loop cfg cmd n w1 = (ok, w') \<Longrightarrow> bus_step w w'"
    by (rule bus_step_trans [OF s Suc.IH])
  from Suc.prems s ih show ?case
    by (simp add: e split: if_splits)
qed

lemma bus_step_sd_init_medium:
  "sd_init_medium cfg sd w = (st, sd', w') \<Longrightarrow> bus_step w w'"
proof -
  assume a: "sd_init_medium cfg sd w = (st, sd', w')"
  define w1 where "w1 = emit InitSequence (emit LowFrequency w)"
  obtain response0 sd1 w2 where e2: "sd_go_idle_state cfg sd w1 = (response0, sd1, w2)"
    by (metis prod_cases3)
  obtain status sd2 w3 where e3: "sd_cmd8 cfg sd1 w2 = (status, sd2, w3)"
    by (metis prod_cases3)
  obtain status1 sd3 w4 where e4:
    "(if crc_on cfg then crc_enable_loop cfg sd2 2 w3 else (status, sd2, w3)) = (status1, sd3, w4)"
    by (metis prod_cases3)
  obtain status2 r sd4 w5 where e5:
    "sd_cmd cfg sd3 CMD58_READ_OCR 0x0 False w4 = (status2, r, sd4, w5)"
    by (metis prod_cases4)
  define response where "response = (case r of None \<Rightarrow> 0 | Some v \<Rightarrow> v)"
  define arg where "arg = (if card_type sd4 = SDCARD_V2 then OCR_HCS_CCS else 0x0)"
  obtain timeout_time w6 where e6: "make_timeout_time_ms SD_COMMAND_TIMEOUT w5 = (timeout_time, w6)"
    by fastforce
  obtain status3 response1 sd5 w7 where e7:
    "acmd41_loop cfg sd4 arg timeout_time response w6 = (status3, response1, sd5, w7)"
    by (metis prod_cases4)
  obtain s r1 sd6 w8 where e8: "sd_cmd cfg sd5 CMD58_READ_OCR 0x0 False w7 = (s, r1, sd6, w8)"
    by (metis prod_cases4)
  have s1: "bus_step w w1" unfolding w1_def by (intro via_emit bus_step_refl) simp_all
  note s2 = bus_step_trans [OF s1 bus_step_sd_go_idle_state [OF e2]]
  note s3 = bus_step_trans [OF s2 bus_step_sd_cmd8 [OF e3]]
  have s4: "bus_step w w4"
    using e4 s3 bus_step_trans [OF s3 bus_step_crc_enable_loop] by (auto split: if_splits)
  note s5 = bus_step_trans [OF s4 bus_step_sd_cmd [OF e5]]
  note s6 = bus_step_trans [OF s5 bus_step_make_timeout_time_ms [OF e6]]
  note s7 = bus_step_trans [OF s6 bus_step_acmd41_loop [OF e7]]
  note s8 = bus_step_trans [OF s7 bus_step_sd_cmd [OF e8]]
  from a s2 s3 s5 s7 s8 show ?thesis
    unfolding sd_init_medium_def Let_def w1_def [symmetric] e2 prod.case e3 e4 e5
      response_def [symmetric] arg_def [symmetric] e6 e7 e8
    by (auto split: if_splits prod.splits intro: via_sd_cmd [OF _ s7] via_sd_cmd [OF _ s8])
qed

subsection \<open>Word arithmetic\<close>

lemma unat_ucast_32_64: "unat (ucast (c :: 32 word) :: 64 word) = unat c"
proof -
  have "unat c < 2 ^ 32" using unsigned_less [of c] by simp
  then have "unat c < 2 ^ 64" by simp
  then show ?thesis by (simp add: unsigned_ucast_eq take_bit_nat_eq_self)
qed

section \<open>Observations\<close>

text \<open>The bytes the driver hands to the bus, in order.\<close>

fun tx_of :: "event \<Rightarrow> byte list" where
  "tx_of (Xfer v r) = [v]"
| "tx_of (DmaTx d) = d"
| "tx_of _ = []"

definition sent :: "world \<Rightarrow> byte list" where
  "sent w = concat (map tx_of (trace w))"

definition sent_since :: "world \<Rightarrow> world \<Rightarrow> byte list" where
  "sent_since w w' = drop (length (sent w)) (sent w')"

subsection \<open>Concrete inputs\<close>

text \<open>
  A configuration with CRC disabled, and a world in which nothing drives the bus:
  every exchange reads \<open>0xFF\<close>, and every deadline has elapsed.
\<close>

definition crc_off :: config where
  "crc_off = \<lparr>crc_on = False, crc7 = (\<lambda>_. 0), crc16 = (\<lambda>_. 0)\<rparr>"

definition quiet :: world where
  "quiet = \<lparr>rx = [], clock = [], dma_done = [], medium_present = True, trace = []\<rparr>"

text \<open>An initialised high-capacity card of 4096 sectors.\<close>

definition ready_card :: sd_card where
  "ready_card = \<lparr>m_Status = 0, card_type = SDCARD_V2HC, sectors = 0x1000, csd = [], cid = []\<rparr>"

section \<open>Properties\<close>

subsection \<open>The command packet on the wire\<close>

lemma bus_step_sent: "bus_step w w' \<Longrightarrow> \<exists>bs. sent w' = sent w @ bs"
  by (auto simp: bus_step_def sent_def)

lemma sent_sd_spi_write: "sent (snd (sd_spi_write v w)) = sent w @ [v]"
  by (auto simp: sd_spi_write_def sent_def emit_def split: list.splits)

lemma sent_send_bytes: "sent (send_bytes bs w) = sent w @ bs"
  by (induction bs arbitrary: w) (simp_all add: sent_sd_spi_write)

lemma sent_sd_cmd_spi:
  "sd_cmd_spi cfg cmd arg w = (r, w') \<Longrightarrow> \<exists>bs. sent w' = sent w @ cmdPacket cfg cmd arg @ bs"
proof -
  assume a: "sd_cmd_spi cfg cmd arg w = (r, w')"
  define w1 where "w1 = send_bytes (cmdPacket cfg cmd arg) w"
  have "bus_step w1 w'"
  proof (cases "cmd = CMD12_STOP_TRANSMISSION")
    case True
    with a have "poll_response 0x10 R1_NO_RESPONSE (snd (sd_spi_write SPI_FILL_CHAR w1)) = (r, w')"
      by (simp add: sd_cmd_spi_def w1_def Let_def)
    from bus_step_trans [OF bus_step_sd_spi_write_snd bus_step_poll_response [OF this]]
    show ?thesis .
  next
    case False
    with a have "poll_response 0x10 R1_NO_RESPONSE w1 = (r, w')"
      by (simp add: sd_cmd_spi_def w1_def Let_def)
    from bus_step_poll_response [OF this] show ?thesis .
  qed
  from bus_step_sent [OF this] show ?thesis
    by (auto simp: w1_def sent_send_bytes)
qed

text \<open>
  C7 (amended). With CRC disabled, the six bytes of a command packet end in
  \<open>0x95\<close> for CMD0, in \<open>0x87\<close> for CMD8, and in \<open>0xFF\<close> for every other
  command: all eight bits set, the stop bit among them.
\<close>

theorem crc_byte_when_disabled:
  "\<not> crc_on cfg \<Longrightarrow>
   take 6 (sent_since w (snd (sd_cmd_spi cfg cmd arg w))) =
     [SPI_CMD cmd, ucast (drop_bit 24 arg), ucast (drop_bit 16 arg), ucast (drop_bit 8 arg),
      ucast arg,
      if cmd = CMD0_GO_IDLE_STATE then 0x95 else if cmd = CMD8_SEND_IF_COND then 0x87 else 0xFF]"
  using sent_sd_cmd_spi [OF surjective_pairing, of cfg cmd arg w]
  by (auto simp: sent_since_def cmdPacket_def)

theorem crc_byte_when_disabled_witness:
  "take 6 (sent_since quiet (snd (sd_cmd_spi crc_off CMD17_READ_SINGLE_BLOCK 0x01020304 quiet))) =
     [0x51, 0x01, 0x02, 0x03, 0x04, 0xFF]"
  using crc_byte_when_disabled [where cfg = crc_off and cmd = CMD17_READ_SINGLE_BLOCK
                                  and arg = "0x01020304" and w = quiet]
  by (simp add: crc_off_def SPI_CMD_def)

text \<open>
  C7 as stated asks for a byte with only the stop bit set (\<open>0x01\<close>) on the other
  commands; for CMD17 the byte on the wire is \<open>0xFF\<close>.
\<close>

theorem crc_byte_not_only_stop_bit:
  "sent_since quiet (snd (sd_cmd_spi crc_off CMD17_READ_SINGLE_BLOCK 0 quiet)) ! 5 = 0xFF
   \<and> (0xFF :: byte) \<noteq> 0x01"
  by code_simp

subsection \<open>The bounds check of the block operations\<close>

text \<open>
  A request made while \<open>NotInitialized\<close> or \<open>NoMedium\<close> is set, and a request
  whose end lies beyond the known sector count, is refused with no effect on the
  world, as long as \<open>sector + count\<close> fits in 64 bits.
\<close>

lemma read_blocks_rejects_uninitialised:
  "m_Status sd AND (STA_NOINIT OR STA_NODISK) \<noteq> 0 \<Longrightarrow>
   in_sd_read_blocks cfg sd buf sector count w = (SD_BLOCK_DEVICE_ERROR_PARAMETER, sd, buf, w)"
  by (simp add: in_sd_read_blocks_def)

lemma write_blocks_rejects_uninitialised:
  "m_Status sd AND (STA_NOINIT OR STA_NODISK) \<noteq> 0 \<Longrightarrow>
   in_sd_write_blocks cfg sd buf sector count w = (SD_BLOCK_DEVICE_ERROR_PARAMETER, sd, w)"
  by (simp add: in_sd_write_blocks_def)

lemma sum_no_wrap:
  "unat (sector :: 64 word) + unat (count :: 32 word) < 2 ^ 64 \<Longrightarrow>
   unat (sector + ucast count) = unat sector + unat count"
  using unat_add_lem [of sector "ucast count :: 64 word"] by (simp add: unat_ucast_32_64)

lemma read_blocks_rejects_out_of_range:
  "unat sector + unat count > unat (sectors sd) \<Longrightarrow> unat sector + unat count < 2 ^ 64 \<Longrightarrow>
   in_sd_read_blocks cfg sd buf sector count w = (SD_BLOCK_DEVICE_ERROR_PARAMETER, sd, buf, w)"
  using sum_no_wrap [of sector count]
  by (simp add: in_sd_read_blocks_def word_less_nat_alt)

lemma write_blocks_rejects_out_of_range:
  "unat sector + unat count > unat (sectors sd) \<Longrightarrow> unat sector + unat count < 2 ^ 64 \<Longrightarrow>
   in_sd_write_blocks cfg sd buf sector count w = (SD_BLOCK_DEVICE_ERROR_PARAMETER, sd, w)"
  using sum_no_wrap [of sector count]
  by (simp add: in_sd_write_blocks_def word_less_nat_alt)

text \<open>
  C2. The sum is computed in 64 bits and wraps. On an initialised card of 4096
  sectors, the request for one block at sector \<open>2^64 - 1\<close> ends beyond the card,
  yet the wrapped sum 0 passes the check: both operations go on to the bus (one
  ready-poll byte, then the CMD17 or CMD24 packet with the truncated address) and
  return what the bus then gives, here \<open>NoResponse\<close>, not \<open>Parameter\<close>.
\<close>

theorem bounds_check_wraps_around:
  "unat (0xFFFFFFFFFFFFFFFF :: 64 word) + unat (1 :: 32 word) > unat (sectors ready_card)
   \<and> fst (in_sd_read_blocks crc_off ready_card [] 0xFFFFFFFFFFFFFFFF 1 quiet)
        = SD_BLOCK_DEVICE_ERROR_NO_RESPONSE
   \<and> take 7 (sent (snd (snd (snd (in_sd_read_blocks crc_off ready_card [] 0xFFFFFFFFFFFFFFFF 1 quiet)))))
        = [0xFF, 0x51, 0xFF, 0xFF, 0xFF, 0xFF, 0xFF]
   \<and> fst (in_sd_write_blocks crc_off ready_card [] 0xFFFFFFFFFFFFFFFF 1 quiet)
        = SD_BLOCK_DEVICE_ERROR_NO_RESPONSE
   \<and> take 7 (sent (snd (snd (in_sd_write_blocks crc_off ready_card [] 0xFFFFFFFFFFFFFFFF 1 quiet))))
        = [0xFF, 0x58, 0xFF, 0xFF, 0xFF, 0xFF, 0xFF]"
proof -
  have a: "unat (0xFFFFFFFFFFFFFFFF :: 64 word) + unat (1 :: 32 word) > unat (sectors ready_card)"
    by (simp add: ready_card_def)
  have b: "fst (in_sd_read_blocks crc_off ready_card [] 0xFFFFFFFFFFFFFFFF 1 quiet)
        = SD_BLOCK_DEVICE_ERROR_NO_RESPONSE"
    by code_simp
  have c: "take 7 (sent (snd (snd (snd (in_sd_read_blocks crc_off ready_card [] 0xFFFFFFFFFFFFFFFF 1 quiet)))))
        = [0xFF, 0x51, 0xFF, 0xFF, 0xFF, 0xFF, 0xFF]"
    by code_simp
  have d: "fst (in_sd_write_blocks crc_off ready_card [] 0xFFFFFFFFFFFFFFFF 1 quiet)
        = SD_BLOCK_DEVICE_ERROR_NO_RESPONSE"
    by code_simp
  have e: "take 7 (sent (snd (snd (in_sd_write_blocks crc_off ready_card [] 0xFFFFFFFFFFFFFFFF 1 quiet))))
        = [0xFF, 0x58, 0xFF, 0xFF, 0xFF, 0xFF, 0xFF]"
    by code_simp
  from a b c d e show ?thesis by blast
qed

subsection \<open>Geometry decoding\<close>

text \<open>A field of \<open>n\<close> bits is below \<open>2^n\<close>.\<close>

lemma bit_ext_bits_upto: "bit (ext_bits_upto data lsb n) k \<Longrightarrow> k < n"
  by (induction n) (auto simp: bit_or_iff bit_exp_iff split: if_splits)

lemma unat_ext_bits_less: "unat (ext_bits data msb lsb) < 2 ^ (1 + msb - lsb)"
proof -
  define n where "n = 1 + msb - lsb"
  define x where "x = ext_bits_upto data lsb n"
  have "take_bit n x = x"
    by (rule bit_eqI) (auto simp: bit_take_bit_iff x_def dest: bit_ext_bits_upto)
  then have "unat x = take_bit n (unat x)"
    by (metis unsigned_take_bit_eq)
  then have "unat x < 2 ^ n"
    by (metis take_bit_nat_less_exp)
  then show ?thesis by (simp add: ext_bits_def x_def n_def)
qed

lemma unat_two_power_32: "n < 32 \<Longrightarrow> unat (push_bit n 1 :: 32 word) = 2 ^ n"
proof -
  assume "n < 32"
  then have "(2 :: nat) ^ n < 2 ^ 32" by (intro power_strict_increasing) auto
  moreover have "(push_bit n 1 :: 32 word) = of_nat (2 ^ n)" by (simp add: push_bit_of_1)
  ultimately show ?thesis by (simp only: unat_of_nat) simp
qed

text \<open>
  For structure version 0 no intermediate value overflows, and the sector count is
  the closed formula. For structure version 1 the count is \<open>(device_size + 1) * 1024\<close>
  for every device size but the largest.
\<close>

lemma csd_blocks_version_0:
  assumes v: "ext_bits c 127 126 = 0"
  shows "unat (csd_blocks c) =
           ((unat (ext_bits c 73 62) + 1) * 2 ^ (unat (ext_bits c 49 47) + 2)
              * 2 ^ unat (ext_bits c 83 80)) div 512"
proof -
  define c_size where "c_size = ext_bits c 73 62"
  define c_size_mult where "c_size_mult = ext_bits c 49 47"
  define read_bl_len where "read_bl_len = ext_bits c 83 80"
  define block_len where "block_len = (push_bit (unat read_bl_len) 1 :: 32 word)"
  define mult where "mult = (push_bit (unat c_size_mult + 2) 1 :: 32 word)"
  define blocknr where "blocknr = (c_size + 1) * mult"
  have a: "unat c_size < 4096"
    using unat_ext_bits_less [of c 73 62] by (simp add: c_size_def)
  have m: "unat c_size_mult < 8"
    using unat_ext_bits_less [of c 49 47] by (simp add: c_size_mult_def)
  have r: "unat read_bl_len < 16"
    using unat_ext_bits_less [of c 83 80] by (simp add: read_bl_len_def)
  have bl: "unat block_len = 2 ^ unat read_bl_len"
    unfolding block_len_def using r by (intro unat_two_power_32) simp
  have mu: "unat mult = 2 ^ (unat c_size_mult + 2)"
    unfolding mult_def using m by (intro unat_two_power_32) simp
  have c1: "unat (c_size + 1) = unat c_size + 1"
    using a unat_add_lem [of c_size 1] by simp
  have p2: "(2 :: nat) ^ (unat c_size_mult + 2) \<le> 2 ^ 9"
    using m by (intro power_increasing) auto
  have "(unat c_size + 1) * 2 ^ (unat c_size_mult + 2) \<le> 4096 * 2 ^ 9"
    using a p2 by (intro mult_mono) auto
  then have small: "(unat c_size + 1) * 2 ^ (unat c_size_mult + 2) \<le> 2097152" by simp
  then have bn: "unat blocknr = (unat c_size + 1) * 2 ^ (unat c_size_mult + 2)"
    unfolding blocknr_def using unat_mult_lem [of "c_size + 1" mult] by (simp add: c1 mu)
  have p3: "(2 :: nat) ^ unat read_bl_len \<le> 2 ^ 15"
    using r by (intro power_increasing) auto
  have "unat blocknr * 2 ^ unat read_bl_len \<le> 2097152 * 2 ^ 15"
    using small p3 unfolding bn by (intro mult_mono) auto
  then have cap_small: "unat blocknr * 2 ^ unat read_bl_len < 2 ^ 64" by simp
  have cap: "unat ((ucast blocknr :: 64 word) * ucast block_len) = unat blocknr * 2 ^ unat read_bl_len"
    using cap_small unat_mult_lem [of "ucast blocknr :: 64 word" "ucast block_len"]
    by (simp add: unat_ucast_32_64 bl)
  have "csd_blocks c = ((ucast blocknr :: 64 word) * ucast block_len) div 512"
    using v by (simp add: csd_blocks_def Let_def blocknr_def mult_def block_len_def
                          c_size_def c_size_mult_def read_bl_len_def)
  then have "unat (csd_blocks c) = (unat blocknr * 2 ^ unat read_bl_len) div 512"
    by (simp add: unat_div cap)
  then show ?thesis
    by (simp add: bn c_size_def c_size_mult_def read_bl_len_def)
qed

lemma csd_blocks_version_1:
  assumes v: "ext_bits c 127 126 = 1" and d: "unat (ext_bits c 69 48) < 0x3FFFFF"
  shows "unat (csd_blocks c) = (unat (ext_bits c 69 48) + 1) * 1024"
proof -
  define h where "h = ext_bits c 69 48"
  have h1: "unat (h + 1) = unat h + 1"
    using d unat_add_lem [of h 1] by (simp add: h_def)
  have "(unat h + 1) * 1024 < 0x3FFFFF * 1024 + 1024" using d by (simp add: h_def)
  then have small: "unat (h + 1) * unat (1024 :: 32 word) < 2 ^ 32" by (simp add: h1)
  have "push_bit 10 (h + 1) = (h + 1) * 1024" by (simp add: push_bit_eq_mult)
  then have "unat (push_bit 10 (h + 1)) = (unat h + 1) * 1024"
    using small unat_mult_lem [of "h + 1" "1024 :: 32 word"] by (simp add: h1)
  then show ?thesis
    using v by (simp add: csd_blocks_def Let_def unat_ucast_32_64 h_def)
qed

text \<open>
  A capacity register of structure version 1 whose 22-bit device-size field is all
  ones, and a bus that answers CMD9 with it.
\<close>

definition full_csd :: "byte list" where
  "full_csd = [0x40, 0, 0, 0, 0, 0, 0, 0x3F, 0xFF, 0xFF, 0, 0, 0, 0, 0, 0]"

definition csd_world :: world where
  "csd_world = quiet\<lparr>rx := replicate 7 0xFF @ [0x00, 0xFE] @ full_csd @ [0, 0]\<rparr>"

lemma in_sd_spi_sectors_decodes:
  "sd_cmd cfg sd CMD9_SEND_CSD 0x0 False w = (SD_BLOCK_DEVICE_ERROR_NONE, r, sd1, w1) \<Longrightarrow>
   sd_read_bytes cfg (csd sd1) 16 w1 = (SD_BLOCK_DEVICE_ERROR_NONE, c, w2) \<Longrightarrow>
   in_sd_spi_sectors cfg sd w = (csd_blocks c, sd1\<lparr>csd := c\<rparr>, w2)"
  by (simp add: in_sd_spi_sectors_def)

text \<open>
  C4. For the largest device size the shift \<open>(hc_c_size + 1) << 10\<close> is done in 32
  bits and gives 0 where the claim's \<open>(device_size + 1) * 1024\<close> is \<open>2^32\<close>: the
  register is read successfully and the decoded sector count is 0.
\<close>

theorem high_capacity_count_overflows:
  "ext_bits full_csd 127 126 = 1
   \<and> ext_bits full_csd 69 48 = 0x3FFFFF
   \<and> fst (in_sd_spi_sectors crc_off ready_card csd_world) = 0
   \<and> csd (fst (snd (in_sd_spi_sectors crc_off ready_card csd_world))) = full_csd
   \<and> (unat (0x3FFFFF :: 32 word) + 1) * 1024 = 4294967296"
proof -
  have a: "ext_bits full_csd 127 126 = 1" by code_simp
  have b: "ext_bits full_csd 69 48 = 0x3FFFFF" by code_simp
  have c: "fst (in_sd_spi_sectors crc_off ready_card csd_world) = 0" by code_simp
  have d: "csd (fst (snd (in_sd_spi_sectors crc_off ready_card csd_world))) = full_csd"
    by code_simp
  have f: "(unat (0x3FFFFF :: 32 word) + 1) * 1024 = 4294967296" by simp
  from a b c d f show ?thesis by blast
qed

subsection \<open>The card lock and the bus around every operation\<close>

text \<open>
  \<open>held_throughout w w'\<close>: from \<open>w\<close> to \<open>w'\<close> the operation took the card lock,
  then the bus, then did bus activity only, then gave up the card lock, then the bus.
\<close>

definition held_throughout :: "world \<Rightarrow> world \<Rightarrow> bool" where
  "held_throughout w w' \<longleftrightarrow>
     (\<exists>es. trace w' = trace w @ [MutexEnter, SpiAcquire] @ es @ [MutexExit, SpiRelease]
           \<and> list_all is_bus es)"

lemma held_throughoutI:
  "trace w1 = trace w @ [MutexEnter, SpiAcquire] \<Longrightarrow> bus_step w1 w2 \<Longrightarrow>
   held_throughout w (sd_release w2)"
  by (auto simp: held_throughout_def bus_step_def sd_release_def sd_unlock_def sd_spi_release_def
                 emit_def)

lemma trace_sd_acquire: "trace (sd_acquire w) = trace w @ [MutexEnter, SpiAcquire]"
  by (simp add: sd_acquire_def sd_lock_def sd_spi_acquire_def emit_def)

lemma held_sd_read_blocks:
  "held_throughout w (snd (snd (snd (sd_read_blocks cfg sd buf sector count w))))"
proof -
  obtain st sd1 buf1 w1 where
    e: "in_sd_read_blocks cfg sd buf sector count (sd_acquire w) = (st, sd1, buf1, w1)"
    by (metis prod_cases4)
  from held_throughoutI [OF trace_sd_acquire bus_step_in_sd_read_blocks [OF e]]
  show ?thesis by (simp add: sd_read_blocks_def e)
qed

lemma held_sd_write_blocks:
  "held_throughout w (snd (snd (sd_write_blocks cfg sd buf sector count w)))"
proof -
  obtain st sd1 w1 where
    e: "in_sd_write_blocks cfg sd buf sector count (sd_acquire w) = (st, sd1, w1)"
    by (metis prod_cases3)
  from held_throughoutI [OF trace_sd_acquire bus_step_in_sd_write_blocks [OF e]]
  show ?thesis by (simp add: sd_write_blocks_def e)
qed

lemma held_sd_spi_sectors:
  "held_throughout w (snd (snd (sd_spi_sectors cfg sd w)))"
proof -
  obtain n sd1 w1 where e: "in_sd_spi_sectors cfg sd (sd_acquire w) = (n, sd1, w1)"
    by (metis prod_cases3)
  from held_throughoutI [OF trace_sd_acquire bus_step_in_sd_spi_sectors [OF e]]
  show ?thesis by (simp add: sd_spi_sectors_def e)
qed

lemma held_sd_spi_test_com:
  "held_throughout w (snd (snd (sd_spi_test_com cfg sd w)))"
proof -
  define w0 where "w0 = sd_acquire w"
  obtain ready w1 where e1: "sd_wait_ready 0 w0 = (ready, w1)" by fastforce
  obtain success w2 where e2:
    "test_com_loop cfg CMD13_SEND_STATUS SD_COMMAND_RETRIES w1 = (success, w2)" by fastforce
  define v1 where "v1 = emit InitSequence (emit LowFrequency w0)"
  obtain ready' v2 where f2: "sd_wait_ready 0 v1 = (ready', v2)" by fastforce
  obtain success' v3 where f3:
    "test_com_loop cfg CMD0_GO_IDLE_STATE SD_COMMAND_RETRIES v2 = (success', v3)" by fastforce
  have t: "trace w0 = trace w @ [MutexEnter, SpiAcquire]"
    unfolding w0_def by (rule trace_sd_acquire)
  note s1 = bus_step_sd_wait_ready [OF e1]
  note s2 = bus_step_trans [OF s1 bus_step_test_com_loop [OF e2]]
  have r1: "bus_step w0 v1" unfolding v1_def by (intro via_emit bus_step_refl) simp_all
  note r2 = bus_step_trans [OF r1 bus_step_sd_wait_ready [OF f2]]
  note r3 = bus_step_trans [OF r2 bus_step_test_com_loop [OF f3]]
  note h = held_throughoutI [OF t s1] held_throughoutI [OF t s2]
           held_throughoutI [OF t r2] held_throughoutI [OF t r3]
  from h show ?thesis
    unfolding sd_spi_test_com_def Let_def w0_def [symmetric] e1 prod.case e2
      v1_def [symmetric] f2 f3
    by (simp split: if_splits)
qed

lemma held_sd_init:
  "(if m_Status (sd_card_detect sd (sd_lock w)) AND STA_NODISK \<noteq> 0
       \<or> m_Status (sd_card_detect sd (sd_lock w)) AND STA_NOINIT = 0
    then trace (snd (snd (sd_init cfg sd w))) = trace w @ [MutexEnter, MutexExit]
    else held_throughout w (snd (snd (sd_init cfg sd w))))"
proof -
  define w1 where "w1 = sd_lock w"
  define sd1 where "sd1 = sd_card_detect sd w1"
  define sd2 where "sd2 = sd1\<lparr>card_type := SDCARD_NONE\<rparr>"
  define w2 where "w2 = sd_spi_acquire w1"
  obtain err sd3 w3 where e3: "sd_init_medium cfg sd2 w2 = (err, sd3, w3)"
    by (metis prod_cases3)
  obtain n sd4 w4 where e4: "in_sd_spi_sectors cfg sd3 w3 = (n, sd4, w4)"
    by (metis prod_cases3)
  define sd5 where "sd5 = sd4\<lparr>sectors := n\<rparr>"
  obtain status r sd6 w5 where e5: "sd_cmd cfg sd5 CMD10_SEND_CID 0x0 False w4 = (status, r, sd6, w5)"
    by (metis prod_cases4)
  obtain status1 c w6 where e6: "sd_read_bytes cfg (cid sd6) 16 w5 = (status1, c, w6)"
    by (metis prod_cases3)
  define sd7 where "sd7 = sd6\<lparr>cid := c\<rparr>"
  obtain status2 r2 sd8 w7 where e7:
    "sd_cmd cfg sd7 CMD16_SET_BLOCKLEN (of_nat block_size) False w6 = (status2, r2, sd8, w7)"
    by (metis prod_cases4)
  define w8 where "w8 = emit HighFrequency (emit Deselect w7)"
  have t: "trace w2 = trace w @ [MutexEnter, SpiAcquire]"
    by (simp add: w2_def w1_def sd_lock_def sd_spi_acquire_def emit_def)
  have u: "trace (sd_unlock w1) = trace w @ [MutexEnter, MutexExit]"
    by (simp add: w1_def sd_lock_def sd_unlock_def emit_def)
  note s3 = bus_step_sd_init_medium [OF e3]
  note s4 = bus_step_trans [OF s3 bus_step_in_sd_spi_sectors [OF e4]]
  note s5 = bus_step_trans [OF s4 bus_step_sd_cmd [OF e5]]
  note s6 = bus_step_trans [OF s5 bus_step_sd_read_bytes [OF e6]]
  note s7 = bus_step_trans [OF s6 bus_step_sd_cmd [OF e7]]
  have s8: "bus_step w2 w8" unfolding w8_def by (intro via_emit s7) simp_all
  note h = held_throughoutI [OF t s3] held_throughoutI [OF t s4] held_throughoutI [OF t s5]
           held_throughoutI [OF t s6] held_throughoutI [OF t s7] held_throughoutI [OF t s8]
  from h u show ?thesis
    unfolding sd_init_def Let_def w1_def [symmetric] sd1_def [symmetric] sd2_def [symmetric]
      w2_def [symmetric] e3 prod.case e4 sd5_def [symmetric] e5 e6 sd7_def [symmetric] e7
      w8_def [symmetric]
    by (simp split: if_splits)
qed

text \<open>
  C8 (amended). Each of the five public operations takes the card lock and then the
  bus before any bus activity, and on every exit path gives both up after the last
  bus activity, the card lock first and the bus second (the order in which they were
  taken). The two early exits of \<open>sd_init\<close> (no medium, or already initialised)
  never take the bus: they take and give up the card lock only, with no bus activity.
\<close>

theorem resources_held_around_bus_activity:
  "held_throughout w (snd (snd (snd (sd_read_blocks cfg sd buf sector count w))))
   \<and> held_throughout w (snd (snd (sd_write_blocks cfg sd buf sector count w)))
   \<and> held_throughout w (snd (snd (sd_spi_sectors cfg sd w)))
   \<and> held_throughout w (snd (snd (sd_spi_test_com cfg sd w)))
   \<and> (if m_Status (sd_card_detect sd (sd_lock w)) AND STA_NODISK \<noteq> 0
            \<or> m_Status (sd_card_detect sd (sd_lock w)) AND STA_NOINIT = 0
         then trace (snd (snd (sd_init cfg sd w))) = trace w @ [MutexEnter, MutexExit]
         else held_throughout w (snd (snd (sd_init cfg sd w))))"
  using held_sd_read_blocks [of w cfg sd buf sector count]
        held_sd_write_blocks [of w cfg sd buf sector count]
        held_sd_spi_sectors [of w cfg sd] held_sd_spi_test_com [of w cfg sd]
        held_sd_init [of sd w cfg]
  by blast

theorem resources_held_around_bus_activity_witness:
  "held_throughout quiet (snd (snd (snd (sd_read_blocks crc_off ready_card [] 0 1 quiet))))
   \<and> held_throughout quiet (snd (snd (sd_write_blocks crc_off ready_card [] 0 1 quiet)))
   \<and> held_throughout quiet (snd (snd (sd_spi_sectors crc_off ready_card quiet)))
   \<and> held_throughout quiet (snd (snd (sd_spi_test_com crc_off ready_card quiet)))
   \<and> trace (snd (snd (sd_init crc_off ready_card quiet))) = [MutexEnter, MutexExit]"
  using resources_held_around_bus_activity
          [of quiet crc_off ready_card "[]" 0 1]
  by (simp add: ready_card_def quiet_def sd_card_detect_def sd_lock_def emit_def)

text \<open>
  C8 as stated has the bus released first and the card lock second. A read that is
  refused by the bounds check does no bus activity, and its trace shows the order of
  \<open>sd_release\<close>: the card lock is given up before the bus.
\<close>

theorem release_order_is_lock_then_bus:
  "trace (snd (snd (snd (sd_read_blocks crc_off ready_card [] 0x2000 1 quiet))))
     = [MutexEnter, SpiAcquire, MutexExit, SpiRelease]
   \<and> trace (snd (snd (snd (sd_read_blocks crc_off ready_card [] 0x2000 1 quiet))))
     \<noteq> [MutexEnter, SpiAcquire, SpiRelease, MutexExit]"
  by code_simp

subsection \<open>The session across block transfers\<close>

lemma session_sd_cmd:
  "cmd \<noteq> CMD8_SEND_IF_COND \<Longrightarrow> sd_cmd cfg sd cmd arg isAcmd w = (st, r, sd', w') \<Longrightarrow> sd' = sd"
proof -
  assume c: "cmd \<noteq> CMD8_SEND_IF_COND" and a: "sd_cmd cfg sd cmd arg isAcmd w = (st, r, sd', w')"
  obtain ready w1 where e1:
    "(if cmd \<noteq> CMD12_STOP_TRANSMISSION \<and> cmd \<noteq> CMD0_GO_IDLE_STATE
      then sd_wait_ready SD_COMMAND_TIMEOUT w else (True, w)) = (ready, w1)" by fastforce
  obtain x w2 where e2:
    "sd_cmd_retry cfg SD_COMMAND_RETRIES cmd arg isAcmd R1_NO_RESPONSE w1 = (x, w2)" by fastforce
  obtain r3 w3 where e3: "read_r3_r7 w2 = (r3, w3)" by fastforce
  obtain b w4 where e4: "sd_spi_write SPI_FILL_CHAR w2 = (b, w4)" by fastforce
  from a c show ?thesis
    unfolding sd_cmd_def e1 Let_def prod.case e2 e3 e4
    by (auto split: if_splits)
qed

lemma session_in_sd_read_blocks:
  "in_sd_read_blocks cfg sd buf sector count w = (st, sd', buf', w') \<Longrightarrow> sd' = sd"
proof -
  assume a: "in_sd_read_blocks cfg sd buf sector count w = (st, sd', buf', w')"
  define addr where "addr = (if card_type sd = SDCARD_V2HC then sector else sector * of_nat block_size)"
  obtain status r sd1 w1 where e1:
    "(if count = 1 then sd_cmd cfg sd CMD17_READ_SINGLE_BLOCK (ucast addr) False w
      else sd_cmd cfg sd CMD18_READ_MULTIPLE_BLOCK (ucast addr) False w) = (status, r, sd1, w1)"
    by (metis prod_cases4)
  have s1: "sd1 = sd"
    using e1 by (auto split: if_splits dest: session_sd_cmd [rotated])
  note e1' = e1 [unfolded s1]
  obtain status1 crc prev buf1 w2 where e2:
    "read_blocks_loop cfg (unat count) SD_BLOCK_DEVICE_ERROR_NONE 0 None 0 buf w1
       = (status1, crc, prev, buf1, w2)"
    by (metis prod_cases5)
  obtain s r2 sd2 w3 where e3:
    "sd_cmd cfg sd CMD12_STOP_TRANSMISSION 0x0 False w2 = (s, r2, sd2, w3)"
    by (metis prod_cases4)
  have s2: "sd2 = sd"
    using e3 by (auto dest: session_sd_cmd [rotated])
  from a s2 show ?thesis
    unfolding in_sd_read_blocks_def Let_def addr_def [symmetric] e1' prod.case
    by (auto simp: e2 e3 split: if_splits)
qed

lemma session_in_sd_write_blocks:
  "in_sd_write_blocks cfg sd buffer sector blockCnt w = (st, sd', w') \<Longrightarrow> sd' = sd"
proof -
  assume a: "in_sd_write_blocks cfg sd buffer sector blockCnt w = (st, sd', w')"
  define addr where "addr = (if card_type sd = SDCARD_V2HC then sector else sector * of_nat block_size)"
  obtain sa ra sda wa where ea:
    "sd_cmd cfg sd CMD24_WRITE_BLOCK (ucast addr) False w = (sa, ra, sda, wa)"
    by (metis prod_cases4)
  have ta: "sda = sd" using ea by (auto dest: session_sd_cmd [rotated])
  note ea' = ea [unfolded ta]
  obtain sb wb where eb:
    "sd_write_block cfg (load buffer 0 block_size) SPI_START_BLOCK block_size wa = (sb, wb)"
    by fastforce
  obtain sc rc sdc wc where ec:
    "sd_cmd cfg sd CMD13_SEND_STATUS 0 False (emit DeselectPulse wb) = (sc, rc, sdc, wc)"
    by (metis prod_cases4)
  have tc: "sdc = sd" using ec by (auto dest: session_sd_cmd [rotated])
  obtain s1 r1 sd1 w1 where e1:
    "sd_cmd cfg sd ACMD23_SET_WR_BLK_ERASE_COUNT blockCnt True w = (s1, r1, sd1, w1)"
    by (metis prod_cases4)
  have t1: "sd1 = sd" using e1 by (auto dest: session_sd_cmd [rotated])
  note e1' = e1 [unfolded t1]
  obtain s3 r3 sd2 w3 where e3:
    "sd_cmd cfg sd CMD25_WRITE_MULTIPLE_BLOCK (ucast addr) False (emit DeselectPulse w1)
       = (s3, r3, sd2, w3)"
    by (metis prod_cases4)
  have t3: "sd2 = sd" using e3 by (auto dest: session_sd_cmd [rotated])
  note e3' = e3 [unfolded t3]
  obtain s4 w4 where e4: "write_blocks_loop cfg buffer 0 blockCnt w3 = (s4, w4)" by fastforce
  obtain s7 r7 sd3 w7 where e7:
    "sd_cmd cfg sd CMD13_SEND_STATUS 0 False
       (emit DeselectPulse (snd (sd_spi_write SPI_STOP_TRAN w4))) = (s7, r7, sd3, w7)"
    by (metis prod_cases4)
  have t7: "sd3 = sd" using e7 by (auto dest: session_sd_cmd [rotated])
  from a tc t7 show ?thesis
    unfolding in_sd_write_blocks_def Let_def addr_def [symmetric] ea' eb ec e1' e3' e4 e7 prod.case
    by (auto split: if_splits)
qed

text \<open>
  C10. A block read or write returns the session it was given: the status bits, the
  capacity-class tag and the sector count, like every other field, are unchanged on
  every path. Within \<open>sd_cmd\<close> the session is changed by CMD8 only.
\<close>

theorem block_transfers_keep_the_session:
  "fst (snd (in_sd_read_blocks cfg sd buf sector count w)) = sd
   \<and> fst (snd (sd_read_blocks cfg sd buf sector count w)) = sd
   \<and> fst (snd (in_sd_write_blocks cfg sd buf sector count w)) = sd
   \<and> fst (snd (sd_write_blocks cfg sd buf sector count w)) = sd
   \<and> (cmd \<noteq> CMD8_SEND_IF_COND \<longrightarrow> fst (snd (snd (sd_cmd cfg sd cmd arg isAcmd w))) = sd)"
proof -
  have r: "fst (snd (in_sd_read_blocks cfg sd buf sector count w')) = sd" for w'
    using session_in_sd_read_blocks [of cfg sd buf sector count w'] by (metis prod.collapse)
  have wr: "fst (snd (in_sd_write_blocks cfg sd buf sector count w')) = sd" for w'
    using session_in_sd_write_blocks [of cfg sd buf sector count w'] by (metis prod.collapse)
  have r': "fst (snd (sd_read_blocks cfg sd buf sector count w)) = sd"
    using r [of "sd_acquire w"] by (simp add: sd_read_blocks_def split_def Let_def)
  have wr': "fst (snd (sd_write_blocks cfg sd buf sector count w)) = sd"
    using wr [of "sd_acquire w"] by (simp add: sd_write_blocks_def split_def Let_def)
  have c: "cmd \<noteq> CMD8_SEND_IF_COND \<longrightarrow> fst (snd (snd (sd_cmd cfg sd cmd arg isAcmd w))) = sd"
    using session_sd_cmd [of cmd cfg sd arg isAcmd w] by (metis prod.collapse)
  from r r' wr wr' c show ?thesis by blast
qed

theorem block_transfers_keep_the_session_witness:
  "fst (snd (in_sd_read_blocks crc_off ready_card [] 0 1 quiet)) = ready_card
   \<and> fst (snd (sd_read_blocks crc_off ready_card [] 0 1 quiet)) = ready_card
   \<and> fst (snd (in_sd_write_blocks crc_off ready_card [] 0 1 quiet)) = ready_card
   \<and> fst (snd (sd_write_blocks crc_off ready_card [] 0 1 quiet)) = ready_card
   \<and> fst (snd (snd (sd_cmd crc_off ready_card CMD17_READ_SINGLE_BLOCK 0 False quiet))) = ready_card"
  using block_transfers_keep_the_session
          [of crc_off ready_card "[]" 0 1 quiet CMD17_READ_SINGLE_BLOCK 0 False]
  by simp

end
